theory Spec2Isabelle
  imports Main
begin

section \<open>Python values used by docker-entrypoint.py\<close>

text \<open>
  Strings are lists of characters. The model covers ASCII text: Python's \<^verbatim>\<open>lower\<close>
  and \<^verbatim>\<open>strip\<close> are modelled on the ASCII letters and on the ASCII characters that
  \<^verbatim>\<open>str.isspace\<close> accepts, \<^verbatim>\<open>int\<close> on the ASCII digits and the whitespace it skips.
\<close>

text \<open>Exceptions derived from Python's \<^verbatim>\<open>Exception\<close> that the program can meet.\<close>

datatype exn =
    ValueError
  | KeyError string
  | TypeError
  | OverflowError
  | TemplateRuntimeError string
  | RedirectMissingLocation
  | RedirectLimit
  | ServerNotFoundError
  | RelativeURIError
  | FailedToDecompressContent
  | SocketTimeout
  | OtherException string

text \<open>
  What a statement can raise: \<^verbatim>\<open>sys.exit(n)\<close> raises \<^verbatim>\<open>SystemExit\<close>, which is not an
  \<^verbatim>\<open>Exception\<close> and so passes every \<^verbatim>\<open>except Exception\<close> clause of the program.
\<close>

datatype raised = SystemExit int | Exception exn

definition is_digit :: "char \<Rightarrow> bool" where
  "is_digit c = (c \<in> set ''0123456789'')"

definition is_space :: "char \<Rightarrow> bool" where
  "is_space c = (c \<in> set [CHR 0x09, CHR 0x0A, CHR 0x0B, CHR 0x0C, CHR 0x0D,
                            CHR 0x1C, CHR 0x1D, CHR 0x1E, CHR 0x1F, CHR 0x20])"

definition lower_char :: "char \<Rightarrow> char" where
  "lower_char c =
     (case map_of (zip ''ABCDEFGHIJKLMNOPQRSTUVWXYZ'' ''abcdefghijklmnopqrstuvwxyz'') c of
        None \<Rightarrow> c
      | Some l \<Rightarrow> l)"

definition py_lower :: "string \<Rightarrow> string" where
  "py_lower s = map lower_char s"

definition py_strip :: "string \<Rightarrow> string" where
  "py_strip s = rev (dropWhile is_space (rev (dropWhile is_space s)))"

text \<open>\<^verbatim>\<open>s.split(c)\<close> for a one-character separator: never an empty list.\<close>

fun py_split :: "char \<Rightarrow> string \<Rightarrow> string list" where
  "py_split c [] = [[]]"
| "py_split c (x # xs) =
     (if x = c then [] # py_split c xs
      else (case py_split c xs of
              [] \<Rightarrow> [[x]]
            | w # ws \<Rightarrow> (x # w) # ws))"

text \<open>\<^verbatim>\<open>s.startswith(t)\<close> and \<^verbatim>\<open>t in s\<close>.\<close>

definition startswith :: "string \<Rightarrow> string \<Rightarrow> bool" where
  "startswith s t = (take (length t) s = t)"

fun py_contains :: "string \<Rightarrow> string \<Rightarrow> bool" where
  "py_contains t [] = (t = [])"
| "py_contains t (x # xs) = (startswith (x # xs) t \<or> py_contains t xs)"

text \<open>
  \<^verbatim>\<open>s.replace(old, new)\<close> for a non-empty \<^verbatim>\<open>old\<close>: the occurrences are found from
  the left and do not overlap. The counter is the number of characters of a found
  occurrence still to be skipped.
\<close>

fun replace_scan :: "string \<Rightarrow> string \<Rightarrow> nat \<Rightarrow> string \<Rightarrow> string" where
  "replace_scan old new k [] = []"
| "replace_scan old new k (x # xs) =
     (if 0 < k then replace_scan old new (k - 1) xs
      else if startswith (x # xs) old then new @ replace_scan old new (length old - 1) xs
      else x # replace_scan old new 0 xs)"

definition py_replace :: "string \<Rightarrow> string \<Rightarrow> string \<Rightarrow> string" where
  "py_replace old new s = replace_scan old new 0 s"

section \<open>The template filters\<close>

subsection \<open>strip\_version\<close>

text \<open>
  \<^verbatim>\<open>re.match(r"^v[0-9]+\.[0-9]+\.[0-9]+", input)\<close>: the pattern is matched at the start of
  the string, piece by piece. \<open>re_lit c\<close> matches the one character \<open>c\<close>, \<open>re_digits\<close>
  matches \<^verbatim>\<open>[0-9]+\<close> greedily; each returns the rest of the string, or \<open>None\<close> when the
  piece does not match.
\<close>

definition re_lit :: "char \<Rightarrow> string \<Rightarrow> string option" where
  "re_lit c s = (case s of [] \<Rightarrow> None | x # r \<Rightarrow> if x = c then Some r else None)"

definition re_digits :: "string \<Rightarrow> string option" where
  "re_digits s = (if takeWhile is_digit s = [] then None else Some (dropWhile is_digit s))"

definition re_match_version :: "string \<Rightarrow> bool" where
  "re_match_version s =
     (Option.bind (re_lit (CHR ''v'') s) (\<lambda>r1.
      Option.bind (re_digits r1) (\<lambda>r2.
      Option.bind (re_lit (CHR ''.'') r2) (\<lambda>r3.
      Option.bind (re_digits r3) (\<lambda>r4.
      Option.bind (re_lit (CHR ''.'') r4) (\<lambda>r5.
      re_digits r5))))) \<noteq> None)"

definition strip_version :: "string \<Rightarrow> string" where
  "strip_version input = (if re_match_version input then drop 1 input else input)"

text \<open>
  The language of the pattern, written out: a \<open>v\<close>, then three non-empty runs of digits
  separated by dots, then anything.
\<close>

definition digits :: "string \<Rightarrow> bool" where
  "digits a = (a \<noteq> [] \<and> list_all is_digit a)"

definition version_shaped :: "string \<Rightarrow> bool" where
  "version_shaped s =
     (\<exists>a b c r. digits a \<and> digits b \<and> digits c \<and>
        s = CHR ''v'' # a @ CHR ''.'' # b @ CHR ''.'' # c @ r)"

subsection \<open>mandatory\<close>



section \<open>Environment, time and JSON\<close>

text \<open>\<^verbatim>\<open>os.environ\<close> is a map from names to values.\<close>

type_synonym env = "string \<rightharpoonup> string"

definition from_env :: "env \<Rightarrow> string \<Rightarrow> string \<Rightarrow> string" where
  "from_env e key dflt = (case e key of None \<Rightarrow> dflt | Some v \<Rightarrow> v)"

definition in_env :: "env \<Rightarrow> string \<Rightarrow> bool" where
  "in_env e key = (from_env e key [] \<noteq> [])"

subsection \<open>Python's int() on a string\<close>

text \<open>
  \<^verbatim>\<open>int(s)\<close> in base ten, for an ASCII string: the whitespace that \<^verbatim>\<open>int\<close> skips on
  both sides is the tab, the line feed, the vertical tab, the form feed, the carriage
  return and the space (not the separators 0x1C to 0x1F, which \<^verbatim>\<open>strip\<close> does remove);
  one sign is allowed; the digits may be grouped by single underscores; and more than
  4300 digits are refused (CPython's default \<^verbatim>\<open>int_max_str_digits\<close>). \<open>None\<close> stands for
  \<^verbatim>\<open>ValueError\<close>.
\<close>

definition is_int_space :: "char \<Rightarrow> bool" where
  "is_int_space c = (c \<in> set [CHR 0x09, CHR 0x0A, CHR 0x0B, CHR 0x0C, CHR 0x0D, CHR 0x20])"

definition int_strip :: "string \<Rightarrow> string" where
  "int_strip s = rev (dropWhile is_int_space (rev (dropWhile is_int_space s)))"

definition digit_val :: "char \<Rightarrow> int" where
  "digit_val c =
     (case map_of (zip ''0123456789'' [0, 1, 2, 3, 4, 5, 6, 7, 8, 9]) c of
        None \<Rightarrow> 0
      | Some d \<Rightarrow> d)"

fun grouped_digits :: "string \<Rightarrow> bool" where
  "grouped_digits [] = False"
| "grouped_digits [x] = is_digit x"
| "grouped_digits (x # y # r) =
     (is_digit x \<and> (if y = CHR ''_'' then grouped_digits r else grouped_digits (y # r)))"

definition digits_value :: "string \<Rightarrow> int" where
  "digits_value b = foldl (\<lambda>acc c. 10 * acc + digit_val c) 0 (filter (\<lambda>c. c \<noteq> CHR ''_'') b)"

definition py_int :: "string \<Rightarrow> int option" where
  "py_int s =
     (let t = int_strip s;
          negative = (t \<noteq> [] \<and> hd t = CHR ''-'');
          b = (if t \<noteq> [] \<and> (hd t = CHR ''-'' \<or> hd t = CHR ''+'') then tl t else t)
      in if grouped_digits b \<and> length (filter (\<lambda>c. c \<noteq> CHR ''_'') b) \<le> 4300
         then Some (if negative then - digits_value b else digits_value b)
         else None)"

subsection \<open>datetime.timedelta\<close>

fun dec :: "nat \<Rightarrow> string" where
  "dec n = (if n < 10 then [''0123456789'' ! n]
            else dec (n div 10) @ [''0123456789'' ! (n mod 10)])"

declare dec.simps [simp del]

text \<open>The conversions \<^verbatim>\<open>%d\<close> and \<^verbatim>\<open>%02d\<close> of Python's string formatting.\<close>

definition fmt_d :: "int \<Rightarrow> string" where
  "fmt_d i = (if i < 0 then CHR ''-'' # dec (nat (- i)) else dec (nat i))"

definition fmt_02d :: "int \<Rightarrow> string" where
  "fmt_02d i = (if 0 \<le> i \<and> i < 10 then CHR ''0'' # fmt_d i else fmt_d i)"

text \<open>
  \<^verbatim>\<open>datetime.timedelta(seconds=n)\<close> holds whole days and the seconds of the last day,
  \<open>0 \<le> seconds < 86400\<close>; more than 999999999 days either way is an \<^verbatim>\<open>OverflowError\<close>.
  \<open>timedelta_str\<close> is its \<^verbatim>\<open>__str__\<close>: \<^verbatim>\<open>H:MM:SS\<close>, after \<^verbatim>\<open>D day(s), \<close> when the
  day count is not zero.
\<close>

definition timedelta_days :: "int \<Rightarrow> int" where
  "timedelta_days n = n div 86400"

definition timedelta_seconds :: "int \<Rightarrow> int" where
  "timedelta_seconds n = n mod 86400"

definition timedelta_overflow :: "int \<Rightarrow> bool" where
  "timedelta_overflow n = (\<bar>timedelta_days n\<bar> > 999999999)"

definition timedelta_str :: "int \<Rightarrow> string" where
  "timedelta_str n =
     (let days = timedelta_days n;
          seconds = timedelta_seconds n;
          mm = seconds div 60;
          ss = seconds mod 60;
          hh = mm div 60;
          mm = mm mod 60;
          s = fmt_d hh @ '':'' @ fmt_02d mm @ '':'' @ fmt_02d ss
      in if days \<noteq> 0
         then fmt_d days @ '' day'' @ (if \<bar>days\<bar> \<noteq> 1 then ''s'' else []) @ '', '' @ s
         else s)"

definition timestamp_diff :: "string \<Rightarrow> string \<Rightarrow> exn + string" where
  "timestamp_diff start end' =
     (case py_int end' of
        None \<Rightarrow> Inl ValueError
      | Some e \<Rightarrow>
          (case py_int start of
             None \<Rightarrow> Inl ValueError
           | Some b \<Rightarrow>
               (let time_diff = e - b
                in if timedelta_overflow time_diff then Inl OverflowError
                   else Inr (timedelta_str time_diff))))"

subsection \<open>Decoded JSON\<close>

text \<open>
  What \<^verbatim>\<open>json.loads\<close> returns: \<^verbatim>\<open>None\<close>, a bool, an int, a str, a list or a dict (its
  items in order, the keys distinct). Numbers with a fraction or an exponent are not
  modelled.
\<close>

datatype json =
    JNull
  | JBool bool
  | JInt int
  | JStr string
  | JList "json list"
  | JDict "(string \<times> json) list"

text \<open>\<^verbatim>\<open>v[key]\<close> for a string key: only a dict can be subscripted by a string.\<close>

definition py_getitem :: "json \<Rightarrow> string \<Rightarrow> exn + json" where
  "py_getitem v key =
     (case v of
        JDict d \<Rightarrow> (case map_of d key of None \<Rightarrow> Inl (KeyError key) | Some x \<Rightarrow> Inr x)
      | _ \<Rightarrow> Inl TypeError)"

text \<open>\<^verbatim>\<open>for x in v\<close>: a list gives its elements, a dict its keys, a string its characters.\<close>

definition py_iter :: "json \<Rightarrow> exn + json list" where
  "py_iter v =
     (case v of
        JList xs \<Rightarrow> Inr xs
      | JDict d \<Rightarrow> Inr (map (\<lambda>kv. JStr (fst kv)) d)
      | JStr s \<Rightarrow> Inr (map (\<lambda>c. JStr [c]) s)
      | _ \<Rightarrow> Inl TypeError)"

text \<open>
  \<^verbatim>\<open>a == b\<close> on decoded JSON: lists are equal element by element in order, dicts are
  equal when they hold the same keys with equal values (in any order), and a bool equals
  the int 0 or 1.
\<close>

fun py_eq :: "json \<Rightarrow> json \<Rightarrow> bool"
  and py_eq_list :: "json list \<Rightarrow> json list \<Rightarrow> bool"
  and py_eq_items :: "(string \<times> json) list \<Rightarrow> (string \<times> json) list \<Rightarrow> bool" where
  "py_eq JNull b = (b = JNull)"
| "py_eq (JBool x) b =
     (case b of JBool y \<Rightarrow> x = y | JInt n \<Rightarrow> n = (if x then 1 else 0) | _ \<Rightarrow> False)"
| "py_eq (JInt m) b =
     (case b of JInt n \<Rightarrow> m = n | JBool y \<Rightarrow> m = (if y then 1 else 0) | _ \<Rightarrow> False)"
| "py_eq (JStr s) b = (b = JStr s)"
| "py_eq (JList xs) b = (case b of JList ys \<Rightarrow> py_eq_list xs ys | _ \<Rightarrow> False)"
| "py_eq (JDict d) b =
     (case b of JDict d' \<Rightarrow> length d = length d' \<and> py_eq_items d d' | _ \<Rightarrow> False)"
| "py_eq_list [] ys = (ys = [])"
| "py_eq_list (x # xs) ys =
     (case ys of [] \<Rightarrow> False | y # ys' \<Rightarrow> py_eq x y \<and> py_eq_list xs ys')"
| "py_eq_items [] d' = True"
| "py_eq_items (kv # d) d' =
     ((case map_of d' (fst kv) of None \<Rightarrow> False | Some w \<Rightarrow> py_eq (snd kv) w)
      \<and> py_eq_items d d')"

section \<open>The state of a run and its surroundings\<close>

text \<open>
  The module's globals that \<^verbatim>\<open>__main__\<close> sets once before \<^verbatim>\<open>perform_action\<close> runs.
\<close>

record settings =
  debug_mode :: bool
  strict_match :: bool
  build_event :: string
  silence_duration :: string

text \<open>A request as \<^verbatim>\<open>make_request\<close> hands it to httplib2, and what comes back.\<close>

datatype payload = EmptyDict | Body string

record request =
  uri :: string
  request_method :: string
  headers :: "string \<rightharpoonup> string"
  body :: payload
  skip_verify :: bool
  request_timeout :: int
  credentials :: "(string \<times> string) option"
  follow_redirects :: bool

record response =
  status :: int
  header :: "string \<rightharpoonup> string"

datatype http_result = Returns response string | Raises exn

text \<open>
  Everything outside the program: the servers (the answer to a request may depend on
  the requests sent before it), the clock, the template engine, the template files,
  and the library functions \<^verbatim>\<open>isoformat\<close>, \<^verbatim>\<open>json.loads\<close> (\<open>None\<close> when it raises, also when
  the bytes are not UTF-8) and \<^verbatim>\<open>str.format\<close> on a value that is not a string.
\<close>

record world =
  http :: "request list \<Rightarrow> request \<Rightarrow> http_result"
  utcnow :: "request list \<Rightarrow> int"
  isoformat :: "int \<Rightarrow> string"
  json_loads :: "string \<Rightarrow> json option"
  is_file :: "string \<Rightarrow> bool"
  render_string :: "string \<Rightarrow> env \<Rightarrow> exn + string"
  render_file :: "string \<Rightarrow> string \<Rightarrow> env \<Rightarrow> exn + string"
  format_other :: "json \<Rightarrow> string"

text \<open>An argument of a message's \<^verbatim>\<open>format\<close>.\<close>

datatype arg =
    AStr string
  | AInt int
  | ABool bool
  | AJson json
  | AExn exn
  | ABytes string
  | AHeaders "string \<rightharpoonup> string"
  | APayload payload
  | AResponse response
  | ACodes "int list"

text \<open>
  What a run changes: the process environment, the module-global \<^verbatim>\<open>request_headers\<close>,
  the lines printed (level, message text before formatting, arguments; the time stamp
  is left out) and the requests handed to httplib2, answered or not.
\<close>

record state =
  environ :: env
  request_headers :: "string \<rightharpoonup> string"
  printed :: "(string \<times> string \<times> arg list) list"
  sent :: "request list"

text \<open>
  A statement maps the state to a result and the new state. \<open>Inl\<close> is what was raised,
  with the state at that point.
\<close>

type_synonym 'a prog = "state \<Rightarrow> (raised + 'a) \<times> state"

definition ret :: "'a \<Rightarrow> 'a prog" where
  "ret x s = (Inr x, s)"

definition raise :: "raised \<Rightarrow> 'a prog" where
  "raise r s = (Inl r, s)"

definition bnd :: "'a prog \<Rightarrow> ('a \<Rightarrow> 'b prog) \<Rightarrow> 'b prog" where
  "bnd m f s = (case m s of (Inl r, s') \<Rightarrow> (Inl r, s') | (Inr x, s') \<Rightarrow> f x s')"

text \<open>\<^verbatim>\<open>try: m except Exception as e: h(e)\<close>; a \<^verbatim>\<open>SystemExit\<close> passes through.\<close>

definition try_except :: "'a prog \<Rightarrow> (exn \<Rightarrow> 'a prog) \<Rightarrow> 'a prog" where
  "try_except m h s =
     (case m s of
        (Inl (Exception e), s') \<Rightarrow> h e s'
      | (Inl (SystemExit n), s') \<Rightarrow> (Inl (SystemExit n), s')
      | (Inr x, s') \<Rightarrow> (Inr x, s'))"

definition lift :: "exn + 'a \<Rightarrow> 'a prog" where
  "lift r s = (case r of Inl e \<Rightarrow> (Inl (Exception e), s) | Inr x \<Rightarrow> (Inr x, s))"

definition print_msg :: "string \<Rightarrow> string \<Rightarrow> arg list \<Rightarrow> unit prog" where
  "print_msg level message args s = (Inr (), s\<lparr>printed := printed s @ [(level, message, args)]\<rparr>)"

definition sys_exit :: "int \<Rightarrow> 'a prog" where
  "sys_exit n = raise (SystemExit n)"

definition fatal_error :: "string \<Rightarrow> 'a prog" where
  "fatal_error message = bnd (print_msg ''ERROR'' message []) (\<lambda>_. sys_exit 1)"

definition set_env :: "string \<Rightarrow> string \<Rightarrow> unit prog" where
  "set_env key v s = (Inr (), s\<lparr>environ := (environ s)(key \<mapsto> v)\<rparr>)"

section \<open>Rendering\<close>

definition silence_author :: string where
  "silence_author = ''drone/alertmanager''"

definition silence_comment :: "env \<Rightarrow> string" where
  "silence_comment e =
     ''Created for build#'' @ from_env e ''DRONE_BUILD_NUMBER'' []
       @ '' of '' @ from_env e ''DRONE_REPO_OWNER'' []
       @ ''/'' @ from_env e ''DRONE_REPO_NAME'' []
       @ '', see '' @ from_env e ''DRONE_BUILD_LINK'' []"

definition deploy_target_token :: string where
  "deploy_target_token = ''{{deploy_target}}''"

definition replace_macroses :: "settings \<Rightarrow> string \<Rightarrow> string prog" where
  "replace_macroses g raw_payload s =
     (if \<not> py_contains deploy_target_token raw_payload then ret raw_payload s
      else if build_event g \<notin> set [''promote'', ''rollback'']
      then fatal_error
             ''Tag \"{{deploy_target}}\" is available only for promote and rollback events'' s
      else (case environ s ''DRONE_DEPLOY_TO'' of
              None \<Rightarrow> fatal_error
                ''Can't replace \"{{deploy_target}}\", because \"DRONE_DEPLOY_TO\" is empty or unavailable in environment'' s
            | Some deploy_target \<Rightarrow>
                if deploy_target = []
                then fatal_error
                  ''Can't replace \"{{deploy_target}}\", because \"DRONE_DEPLOY_TO\" is empty or unavailable in environment'' s
                else ret (py_replace deploy_target_token deploy_target raw_payload) s))"

definition render_custom_template :: "world \<Rightarrow> settings \<Rightarrow> string \<Rightarrow> string prog" where
  "render_custom_template w g custom_template s =
     bnd (lift (render_string w custom_template (environ s))) (replace_macroses g) s"

definition render_template :: "world \<Rightarrow> settings \<Rightarrow> string \<Rightarrow> string prog" where
  "render_template w g target_template s =
     (let templates_dir = from_env (environ s) ''TEMPLATES_PATH'' ''/templates/'';
          template_file = templates_dir @ target_template @ ''.j2''
      in if \<not> is_file w template_file
         then bnd (print_msg ''ERROR'' ''Can't read template from {0}'' [AStr template_file])
                  (\<lambda>_. sys_exit 1) s
         else bnd (lift (render_file w templates_dir (target_template @ ''.j2'') (environ s)))
                  (replace_macroses g) s)"

section \<open>make\_request\<close>

text \<open>Lines 233 to 238: the derived durations, written back into the environment.\<close>

definition set_duration :: "string \<Rightarrow> string \<Rightarrow> string \<Rightarrow> unit prog" where
  "set_duration key start_key end_key s =
     (if in_env (environ s) start_key \<and> in_env (environ s) end_key
      then bnd (lift (timestamp_diff (from_env (environ s) start_key [])
                                     (from_env (environ s) end_key [])))
               (set_env key) s
      else ret () s)"

definition derive_durations :: "unit prog" where
  "derive_durations =
     bnd (set_duration ''DRONE_BUILD_TOTALTIME'' ''DRONE_BUILD_STARTED'' ''DRONE_BUILD_FINISHED'')
         (\<lambda>_. set_duration ''DRONE_BUILD_QUEUEDTIME'' ''DRONE_BUILD_CREATED'' ''DRONE_BUILD_STARTED'')"

text \<open>
  Lines 241 to 246: the header list. \<^verbatim>\<open>k, v = header_string.split(':')\<close> needs exactly
  two parts and raises \<^verbatim>\<open>ValueError\<close> otherwise; the global map is updated after the
  loop, in place.
\<close>

fun custom_headers :: "string list \<Rightarrow> (string \<rightharpoonup> string) \<Rightarrow> exn + (string \<rightharpoonup> string)" where
  "custom_headers [] c = Inr c"
| "custom_headers (header_string # rest) c =
     (case py_split (CHR '':'') header_string of
        [k, v] \<Rightarrow> custom_headers rest (c(py_strip k \<mapsto> py_strip v))
      | _ \<Rightarrow> Inl ValueError)"

definition parse_headers :: "unit prog" where
  "parse_headers s =
     (if in_env (environ s) ''PLUGIN_HEADERS''
      then bnd (lift (custom_headers
                        (py_split (CHR '','') (from_env (environ s) ''PLUGIN_HEADERS'' []))
                        Map.empty))
               (\<lambda>c s'. ret () (s'\<lparr>request_headers := request_headers s' ++ c\<rparr>)) s
      else ret () s)"

text \<open>Lines 248 to 258: the payload, rendered for the template name \<open>create\<close> only.\<close>

definition render_payload :: "world \<Rightarrow> settings \<Rightarrow> string option \<Rightarrow> payload prog" where
  "render_payload w g template_name s =
     (if template_name = Some ''create''
      then try_except
             (\<lambda>s. if in_env (environ s) ''PLUGIN_CUSTOM_TEMPLATE''
                  then bnd (render_custom_template w g
                              (from_env (environ s) ''PLUGIN_CUSTOM_TEMPLATE'' []))
                           (\<lambda>p. ret (Body p)) s
                  else if in_env (environ s) ''PLUGIN_TEMPLATE''
                  then bnd (render_template w g
                              (from_env (environ s) ''PLUGIN_TEMPLATE'' ''default'' @ ''/create''))
                           (\<lambda>p. ret (Body p)) s
                  else ret EmptyDict s)
             (\<lambda>e. bnd (print_msg ''ERROR'' ''Template rendering failed with an error:\<newline>{0}''
                          [AExn e])
                       (\<lambda>_. sys_exit 1)) s
      else ret EmptyDict s)"

text \<open>
  Lines 260 to 278: the options of the request. \<^verbatim>\<open>follow_redirects\<close> reaches the
  connection only together with credentials; httplib2 follows redirects otherwise.
\<close>

definition build_request ::
    "string \<Rightarrow> string \<Rightarrow> payload \<Rightarrow> request prog" where
  "build_request target_url method request_payload s =
     (let e = environ s;
          skip = (in_env e ''PLUGIN_SKIP_VERIFY''
                   \<and> py_lower (from_env e ''PLUGIN_SKIP_VERIFY'' []) = ''true'');
          follow = (if in_env e ''PLUGIN_FOLLOW_REDIRECTS''
                    then py_lower (from_env e ''PLUGIN_FOLLOW_REDIRECTS'' []) = ''true''
                    else True);
          with_credentials = (in_env e ''PLUGIN_USERNAME'' \<and> in_env e ''PLUGIN_PASSWORD'')
      in bnd (if in_env e ''PLUGIN_TIMEOUT''
              then (case py_int (from_env e ''PLUGIN_TIMEOUT'' []) of
                      None \<Rightarrow> raise (Exception ValueError)
                    | Some t \<Rightarrow> ret t)
              else ret 60)
             (\<lambda>t. ret \<lparr> uri = target_url,
                         request_method = method,
                         headers = request_headers s,
                         body = request_payload,
                         skip_verify = skip,
                         request_timeout = t,
                         credentials =
                           (if with_credentials
                            then Some (from_env e ''PLUGIN_USERNAME'' [],
                                       from_env e ''PLUGIN_PASSWORD'' [])
                            else None),
                         follow_redirects = (if with_credentials then follow else True) \<rparr>) s)"

text \<open>Lines 280 to 291: what debug mode prints before the request.\<close>

definition debug_request :: "settings \<Rightarrow> request \<Rightarrow> unit prog" where
  "debug_request g r s =
     (if debug_mode g
      then (Inr (), s\<lparr>printed := printed s @
             [(''DEBUG'', ''Target URL is {0}'', [AStr (uri r)]),
              (''DEBUG'', ''Method is {0}'', [AStr (request_method r)]),
              (''DEBUG'', ''SkipVerify is {0}'', [ABool (skip_verify r)]),
              (''DEBUG'', ''FollowRedirects is {0}'',
                 [ABool (if in_env (environ s) ''PLUGIN_FOLLOW_REDIRECTS''
                         then py_lower (from_env (environ s) ''PLUGIN_FOLLOW_REDIRECTS'' []) = ''true''
                         else True)]),
              (''DEBUG'', ''Timeout is {0}'', [AInt (request_timeout r)]),
              (''DEBUG'', ''Headers are {0}'', [AHeaders (headers r)]),
              (''DEBUG'', ''Credentials are {0}:{1}'',
                 (case credentials r of
                    None \<Rightarrow> [AStr [], AStr []]
                  | Some (u, p) \<Rightarrow> [AStr u, AStr p])),
              (''DEBUG'', ''Valid codes are {0}'', [ACodes [200]]),
              (''DEBUG'', ''Here is a message:\<newline>{0}'', [APayload (body r)]),
              (''NOTICE'', ''Sending request to {0}'', [AStr (uri r)])]\<rparr>)
      else ret () s)"

text \<open>
  Lines 292 to 324: the request itself. A status other than 200 prints an error and
  calls \<^verbatim>\<open>sys.exit(1)\<close> inside the \<^verbatim>\<open>try\<close>; no \<^verbatim>\<open>except\<close> clause catches it. An exception
  of the transport is printed and the function ends without a \<^verbatim>\<open>return\<close>: the caller
  gets \<^verbatim>\<open>None\<close>.
\<close>

definition transport_message :: "request \<Rightarrow> exn \<Rightarrow> string \<times> arg list" where
  "transport_message r e =
     (case e of
        RedirectMissingLocation \<Rightarrow>
          (''A 3xx redirect response code was provided but no Location: header was provided to point to the new location.'', [])
      | RedirectLimit \<Rightarrow>
          (''The maximum number of redirections was reached without coming to a final URI.'', [])
      | ServerNotFoundError \<Rightarrow>
          (''Unable to resolve the host name given for URI:\<newline> {0}.'', [AStr (uri r)])
      | RelativeURIError \<Rightarrow>
          (''A relative, as opposed to an absolute URI, was passed into request().'', [])
      | FailedToDecompressContent \<Rightarrow>
          (''The headers claimed that the content of the response was compressed but the decompression algorithm applied to the content failed.'', [])
      | SocketTimeout \<Rightarrow>
          (''Timeout exceeded after {0} seconds, request aborted.'', [AInt (request_timeout r)])
      | _ \<Rightarrow> (''Request failed with an error:\<newline>{0}'', [AExn e]))"

definition send_request ::
    "world \<Rightarrow> settings \<Rightarrow> request \<Rightarrow> (response \<times> string) option prog" where
  "send_request w g r s =
     (let s1 = s\<lparr>sent := sent s @ [r]\<rparr>
      in case http w (sent s) r of
           Returns resp content \<Rightarrow>
             bnd (if debug_mode g
                  then bnd (print_msg ''DEBUG'' ''Here is a response:\<newline>{0}'' [AResponse resp])
                           (\<lambda>_. print_msg ''DEBUG'' ''And here is a body of response:\<newline>{0}''
                                   [ABytes content])
                  else ret ())
                 (\<lambda>_. if status resp \<in> set [200]
                      then bnd (print_msg ''NOTICE''
                                  ''Request successfully sent to {0}, we got HTTP/{1}''
                                  [AStr (uri r), AInt (status resp)])
                               (\<lambda>_. ret (Some (resp, content)))
                      else bnd (print_msg ''ERROR''
                                  ''Request failed with HTTP/{0}, recieved response below:\<newline>{1}''
                                  [AInt (status resp), ABytes content])
                               (\<lambda>_. sys_exit 1)) s1
         | Raises e \<Rightarrow>
             bnd (print_msg ''ERROR'' (fst (transport_message r e)) (snd (transport_message r e)))
                 (\<lambda>_. ret None) s1)"

definition make_request ::
    "world \<Rightarrow> settings \<Rightarrow> string \<Rightarrow> string \<Rightarrow> string option
       \<Rightarrow> (response \<times> string) option prog" where
  "make_request w g target_url method template_name =
     bnd derive_durations (\<lambda>_.
     bnd parse_headers (\<lambda>_.
     bnd (render_payload w g template_name) (\<lambda>request_payload.
     bnd (build_request target_url method request_payload) (\<lambda>r.
     bnd (debug_request g r) (\<lambda>_.
     send_request w g r)))))"

section \<open>find\_silences\<close>

definition decode_and_parse_json :: "world \<Rightarrow> string \<Rightarrow> json prog" where
  "decode_and_parse_json w content =
     (case json_loads w content of
        Some result \<Rightarrow> ret result
      | None \<Rightarrow> bnd (print_msg ''ERROR'' ''Failed decode and parse response:\<newline>{0}''
                       [AExn ValueError])
                    (\<lambda>_. ret (JList [])))"

definition ebind :: "exn + 'a \<Rightarrow> ('a \<Rightarrow> exn + 'b) \<Rightarrow> exn + 'b" where
  "ebind r f = (case r of Inl e \<Rightarrow> Inl e | Inr x \<Rightarrow> f x)"

text \<open>
  Lines 158 to 166, the body of the loop for one entry: \<open>Inr None\<close> when the entry is
  skipped, \<open>Inr (Some i)\<close> when its identifier \<open>i\<close> is appended, \<open>Inl\<close> when a subscript
  raises.
\<close>

definition match_silence ::
    "bool \<Rightarrow> string \<Rightarrow> string \<Rightarrow> json \<Rightarrow> json \<Rightarrow> exn + json option" where
  "match_silence strict required_silence_author required_silence_comment required_matchers
      target_silence =
     ebind (py_getitem target_silence ''status'') (\<lambda>st.
     ebind (py_getitem st ''state'') (\<lambda>state.
       if py_eq state (JStr ''expired'') then Inr None
       else
     ebind (py_getitem target_silence ''createdBy'') (\<lambda>created_by.
       if \<not> py_eq created_by (JStr required_silence_author) then Inr None
       else
     ebind (py_getitem target_silence ''comment'') (\<lambda>comment.
       if \<not> py_eq comment (JStr required_silence_comment) then Inr None
       else
     ebind (if \<not> strict then Inr True
            else ebind (py_getitem target_silence ''matchers'') (\<lambda>m.
                 ebind (py_getitem required_matchers ''matchers'') (\<lambda>m'.
                 Inr (py_eq m m')))) (\<lambda>accepted.
       if accepted
       then ebind (py_getitem target_silence ''id'') (\<lambda>i. Inr (Some i))
       else Inr None)))))"

text \<open>
  The loop inside the \<^verbatim>\<open>try\<close>: an exception ends it, and the identifiers appended so
  far stay in \<^verbatim>\<open>silence_ids\<close>.
\<close>

fun silences_loop ::
    "bool \<Rightarrow> string \<Rightarrow> string \<Rightarrow> json \<Rightarrow> json list \<Rightarrow> json list \<Rightarrow> state
       \<Rightarrow> (exn option \<times> json list) \<times> state" where
  "silences_loop strict a c m [] silence_ids s = ((None, silence_ids), s)"
| "silences_loop strict a c m (target_silence # rest) silence_ids s =
     (case match_silence strict a c m target_silence of
        Inl e \<Rightarrow> ((Some e, silence_ids), s)
      | Inr None \<Rightarrow> silences_loop strict a c m rest silence_ids s
      | Inr (Some i) \<Rightarrow>
          silences_loop strict a c m rest (silence_ids @ [i])
            (snd (print_msg ''DEBUG'' ''Found matching silence with ID {0}'' [AJson i] s)))"

text \<open>Lines 155 to 170: the \<^verbatim>\<open>try\<close> block and the \<^verbatim>\<open>return\<close>.\<close>

definition collect_silences ::
    "world \<Rightarrow> bool \<Rightarrow> string \<Rightarrow> string \<Rightarrow> json \<Rightarrow> string \<Rightarrow> json list prog" where
  "collect_silences w strict a c m content =
     bnd (decode_and_parse_json w content) (\<lambda>silences_list s.
       case py_iter silences_list of
         Inl e \<Rightarrow>
           bnd (print_msg ''ERROR'' ''Searching for silence failed with an error:\<newline>{0}''
                  [AExn e])
               (\<lambda>_. ret []) s
       | Inr entries \<Rightarrow>
           (case silences_loop strict a c m entries [] s of
              ((None, silence_ids), s') \<Rightarrow> ret silence_ids s'
            | ((Some e, silence_ids), s') \<Rightarrow>
                bnd (print_msg ''ERROR'' ''Searching for silence failed with an error:\<newline>{0}''
                       [AExn e])
                    (\<lambda>_. ret silence_ids) s'))"

text \<open>
  Lines 145 to 147: with strict matching the matchers are rendered from the template
  \<open>_matchers\<close> of the template set and decoded; \<^verbatim>\<open>json.loads\<close> raising is a
  \<^verbatim>\<open>ValueError\<close>. Without strict matching \<^verbatim>\<open>required_matchers\<close> stays unbound and is never
  read; \<open>JNull\<close> stands for it.
\<close>

definition load_required_matchers :: "world \<Rightarrow> settings \<Rightarrow> json prog" where
  "load_required_matchers w g s =
     (if strict_match g
      then bnd (render_template w g
                  (from_env (environ s) ''PLUGIN_TEMPLATE'' ''default'' @ ''/_matchers''))
               (\<lambda>t. case json_loads w (''{'' @ t @ ''}'') of
                      None \<Rightarrow> raise (Exception ValueError)
                    | Some j \<Rightarrow> ret j) s
      else ret JNull s)"

text \<open>
  Lines 151 to 170, from the result of \<^verbatim>\<open>make_request\<close> on. \<open>None\<close> is the
  \<^verbatim>\<open>return None\<close> of line 154. When \<^verbatim>\<open>make_request\<close> gave \<^verbatim>\<open>None\<close>, the assignment
  \<^verbatim>\<open>response, content = ...\<close> raises \<^verbatim>\<open>TypeError\<close>; a response without a content type
  raises \<^verbatim>\<open>KeyError\<close>. Both are outside the \<^verbatim>\<open>try\<close>.
\<close>

definition search_response ::
    "world \<Rightarrow> bool \<Rightarrow> string \<Rightarrow> string \<Rightarrow> json \<Rightarrow> (response \<times> string) option
       \<Rightarrow> json list option prog" where
  "search_response w strict required_silence_author required_silence_comment required_matchers
      result =
     (case result of
        None \<Rightarrow> raise (Exception TypeError)
      | Some (resp, content) \<Rightarrow>
          (case header resp ''content-type'' of
             None \<Rightarrow> raise (Exception (KeyError ''content-type''))
           | Some ct \<Rightarrow>
               if ct \<noteq> ''application/json''
               then bnd (print_msg ''WARNING''
                           ''Got \"{0}\" as Content-Type type instead of expected \"application/json\"''
                           [AStr ct])
                        (\<lambda>_. ret None)
               else bnd (collect_silences w strict required_silence_author
                           required_silence_comment required_matchers content)
                        (\<lambda>silence_ids. ret (Some silence_ids))))"

text \<open>Line 149.\<close>

definition search_notice :: "settings \<Rightarrow> unit prog" where
  "search_notice g =
     print_msg ''NOTICE'' ''Searching for non-expired silences (strict_match={0})''
       [AStr (if strict_match g then ''true'' else ''false'')]"

definition find_silences :: "world \<Rightarrow> settings \<Rightarrow> string \<Rightarrow> json list option prog" where
  "find_silences w g base_url s =
     (let target_url = base_url @ ''/api/v2/silences'';
          required_silence_author = silence_author;
          required_silence_comment = silence_comment (environ s)
      in bnd (load_required_matchers w g) (\<lambda>required_matchers.
         bnd (search_notice g) (\<lambda>_.
         bnd (make_request w g target_url ''GET'' None)
             (search_response w (strict_match g) required_silence_author
                required_silence_comment required_matchers))) s)"

section \<open>perform\_action\<close>

text \<open>
  Time stamps are microseconds since the start of year 1, the range of \<^verbatim>\<open>datetime\<close>
  ending with year 9999.
\<close>

definition datetime_end :: int where
  "datetime_end = 3652059 * 86400 * 1000000"

definition time_in_rfc3339 :: "world \<Rightarrow> int \<Rightarrow> string option \<Rightarrow> exn + string" where
  "time_in_rfc3339 w target delta =
     (case delta of
        None \<Rightarrow> Inr (isoformat w target @ ''Z'')
      | Some d \<Rightarrow>
          (case py_int d of
             None \<Rightarrow> Inl ValueError
           | Some n \<Rightarrow>
               if timedelta_overflow n then Inl OverflowError
               else if target + n * 1000000 < 0 \<or> datetime_end \<le> target + n * 1000000
               then Inl OverflowError
               else Inr (isoformat w (target + n * 1000000) @ ''Z'')))"

definition format_id :: "world \<Rightarrow> json \<Rightarrow> string" where
  "format_id w v = (case v of JStr s \<Rightarrow> s | _ \<Rightarrow> format_other w v)"

text \<open>Lines 347 to 352, from the result of \<^verbatim>\<open>make_request\<close> on.\<close>

definition created_response :: "world \<Rightarrow> (response \<times> string) option \<Rightarrow> unit prog" where
  "created_response w result =
     (case result of
        None \<Rightarrow> raise (Exception TypeError)
      | Some (resp, content) \<Rightarrow>
          (case header resp ''content-type'' of
             None \<Rightarrow> raise (Exception (KeyError ''content-type''))
           | Some ct \<Rightarrow>
               if ct \<noteq> ''application/json''
               then print_msg ''WARNING''
                      ''Got \"{0}\" as Content-Type type instead of expected \"application/json\"''
                      [AStr ct]
               else bnd (decode_and_parse_json w content) (\<lambda>json_response.
                    bnd (lift (py_getitem json_response ''silenceID'')) (\<lambda>i.
                    print_msg ''NOTICE'' ''Silence added with ID {0}'' [AJson i]))))"

text \<open>Lines 338 to 352, for one target.\<close>

definition create_silence :: "world \<Rightarrow> settings \<Rightarrow> string \<Rightarrow> string \<Rightarrow> unit prog" where
  "create_silence w g target_url target_action s =
     (let time_now = utcnow w (sent s)
      in bnd (lift (time_in_rfc3339 w time_now None)) (\<lambda>starts.
         bnd (set_env ''SILENCE_STARTS_AT'' starts) (\<lambda>_.
         bnd (lift (time_in_rfc3339 w time_now (Some (silence_duration g)))) (\<lambda>ends.
         bnd (set_env ''SILENCE_ENDS_AT'' ends) (\<lambda>_.
         bnd (make_request w g (target_url @ ''/api/v2/silences'') ''POST'' (Some target_action))
             (created_response w))))) s)"

text \<open>Lines 361 to 365: one \<^verbatim>\<open>DELETE\<close> for each identifier; the result is not looked at.\<close>

fun delete_loop :: "world \<Rightarrow> settings \<Rightarrow> string \<Rightarrow> string \<Rightarrow> json list \<Rightarrow> unit prog" where
  "delete_loop w g target_url target_action [] = ret ()"
| "delete_loop w g target_url target_action (silence_id # rest) =
     bnd (print_msg ''NOTICE'' ''Deleting silence with ID {0}'' [AJson silence_id]) (\<lambda>_.
     bnd (make_request w g (target_url @ ''/api/v2/silence/'' @ format_id w silence_id)
            ''DELETE'' (Some target_action)) (\<lambda>_.
     delete_loop w g target_url target_action rest))"

text \<open>Lines 354 to 367, for one target.\<close>

definition delete_silences :: "world \<Rightarrow> settings \<Rightarrow> string \<Rightarrow> string \<Rightarrow> unit prog" where
  "delete_silences w g target_url target_action =
     bnd (find_silences w g target_url) (\<lambda>silence_ids.
       case silence_ids of
         Some (i # rest) \<Rightarrow> delete_loop w g target_url target_action (i # rest)
       | _ \<Rightarrow> print_msg ''WARNING''
                ''Can't find matching silences, probably they're already expired?'' [])"

fun targets_loop :: "world \<Rightarrow> settings \<Rightarrow> string \<Rightarrow> string list \<Rightarrow> unit prog" where
  "targets_loop w g target_action [] = ret ()"
| "targets_loop w g target_action (target_url # rest) =
     bnd (if target_action = ''create'' then create_silence w g target_url target_action
          else ret ()) (\<lambda>_.
     bnd (if target_action = ''delete'' then delete_silences w g target_url target_action
          else ret ()) (\<lambda>_.
     targets_loop w g target_action rest))"

definition perform_action :: "world \<Rightarrow> settings \<Rightarrow> string \<Rightarrow> unit prog" where
  "perform_action w g target_action =
     bnd (\<lambda>s. set_env ''SILENCE_COMMENT'' (silence_comment (environ s)) s) (\<lambda>_.
     bnd (set_env ''SILENCE_CREATED_BY'' silence_author) (\<lambda>_ s.
     targets_loop w g target_action
       (py_split (CHR '','') (from_env (environ s) ''PLUGIN_URLS'' [])) s))"

section \<open>Auxiliary notions for the properties\<close>

text \<open>The lines of \<^verbatim>\<open>make_request\<close> before the request is sent.\<close>

definition prepare_request ::
    "world \<Rightarrow> settings \<Rightarrow> string \<Rightarrow> string \<Rightarrow> string option \<Rightarrow> request prog" where
  "prepare_request w g target_url method template_name =
     bnd derive_durations (\<lambda>_.
     bnd parse_headers (\<lambda>_.
     bnd (render_payload w g template_name) (\<lambda>request_payload.
     bnd (build_request target_url method request_payload) (\<lambda>r.
     bnd (debug_request g r) (\<lambda>_. ret r)))))"

text \<open>
  What the lines before the request need of the environment so as not to raise: the
  endpoints of a duration that is computed are integers, every entry of the header list
  has one colon, and the timeout is an integer.
\<close>

definition duration_ok :: "env \<Rightarrow> string \<Rightarrow> string \<Rightarrow> bool" where
  "duration_ok e start_key end_key =
     (if in_env e start_key \<and> in_env e end_key
      then \<not> isl (timestamp_diff (from_env e start_key []) (from_env e end_key []))
      else True)"

definition request_ready :: "env \<Rightarrow> bool" where
  "request_ready e =
     (duration_ok e ''DRONE_BUILD_STARTED'' ''DRONE_BUILD_FINISHED''
      \<and> duration_ok e ''DRONE_BUILD_CREATED'' ''DRONE_BUILD_STARTED''
      \<and> (if in_env e ''PLUGIN_HEADERS''
         then \<not> isl (custom_headers
                       (py_split (CHR '','') (from_env e ''PLUGIN_HEADERS'' [])) Map.empty)
         else True)
      \<and> (if in_env e ''PLUGIN_TIMEOUT''
         then py_int (from_env e ''PLUGIN_TIMEOUT'' []) \<noteq> None
         else True))"

text \<open>
  The value of an environment variable as an integer, and an interval both of whose
  endpoints are integers with a difference that \<^verbatim>\<open>timedelta\<close> can hold.
\<close>

definition env_int :: "env \<Rightarrow> string \<Rightarrow> int" where
  "env_int e key = (case py_int (from_env e key []) of None \<Rightarrow> 0 | Some n \<Rightarrow> n)"

definition integer_endpoints :: "env \<Rightarrow> string \<Rightarrow> string \<Rightarrow> bool" where
  "integer_endpoints e start_key end_key =
     (py_int (from_env e start_key []) \<noteq> None \<and> py_int (from_env e end_key []) \<noteq> None
      \<and> \<not> timedelta_overflow (env_int e end_key - env_int e start_key))"

text \<open>The header list holds an entry that does not split into two parts at its colons.\<close>

definition bad_headers :: "env \<Rightarrow> bool" where
  "bad_headers e =
     (in_env e ''PLUGIN_HEADERS''
      \<and> list_ex (\<lambda>h. count_list h (CHR '':'') \<noteq> 1)
           (py_split (CHR '','') (from_env e ''PLUGIN_HEADERS'' [])))"

text \<open>
  The claim's reading of a silence: the value of a field, \<open>JNull\<close> when the entry has no
  such field; an entry with the fields the loop reads; and the entries the claim says
  are selected.
\<close>

definition field :: "json \<Rightarrow> string \<Rightarrow> json" where
  "field v key = (case py_getitem v key of Inl _ \<Rightarrow> JNull | Inr x \<Rightarrow> x)"


definition selected :: "bool \<Rightarrow> string \<Rightarrow> string \<Rightarrow> json \<Rightarrow> json \<Rightarrow> bool" where
  "selected strict author comment required t =
     (field (field t ''status'') ''state'' \<noteq> JStr ''expired''
      \<and> field t ''createdBy'' = JStr author
      \<and> field t ''comment'' = JStr comment
      \<and> (if strict then py_eq (field t ''matchers'') (field required ''matchers'') else True))"

text \<open>
  What the \<^verbatim>\<open>try\<close> block of the search meets in a response body. \<open>decoded_entries\<close> are
  the entries the loop runs over: none when the body does not decode or when the
  decoded value cannot be iterated. \<open>entry_raises\<close> says that a subscript the loop
  reaches on an entry raises: the conditions are read in the order of lines 158 to
  166, and a condition that ends the iteration (\<^verbatim>\<open>continue\<close>) hides the fields after it.
  \<open>search_fails\<close> says that the block meets a failure, and \<open>found_before_failure\<close> are
  the identifiers of the selected entries that come before the first entry on which a
  subscript raises.
\<close>

definition decoded_entries :: "world \<Rightarrow> string \<Rightarrow> json list" where
  "decoded_entries w content =
     (case json_loads w content of
        None \<Rightarrow> []
      | Some j \<Rightarrow> (case py_iter j of Inl e \<Rightarrow> [] | Inr ts \<Rightarrow> ts))"

definition entry_raises :: "bool \<Rightarrow> string \<Rightarrow> string \<Rightarrow> json \<Rightarrow> json \<Rightarrow> bool" where
  "entry_raises strict author comment required t =
     (isl (py_getitem t ''status'')
      \<or> isl (py_getitem (field t ''status'') ''state'')
      \<or> (field (field t ''status'') ''state'' \<noteq> JStr ''expired''
         \<and> (isl (py_getitem t ''createdBy'')
            \<or> (field t ''createdBy'' = JStr author
               \<and> (isl (py_getitem t ''comment'')
                  \<or> (field t ''comment'' = JStr comment
                     \<and> ((strict \<and> (isl (py_getitem t ''matchers'')
                                    \<or> isl (py_getitem required ''matchers'')))
                        \<or> (selected strict author comment required t
                           \<and> isl (py_getitem t ''id'')))))))))"

definition search_fails :: "world \<Rightarrow> bool \<Rightarrow> string \<Rightarrow> string \<Rightarrow> json \<Rightarrow> string \<Rightarrow> bool" where
  "search_fails w strict author comment required content =
     (case json_loads w content of
        None \<Rightarrow> True
      | Some j \<Rightarrow>
          (case py_iter j of
             Inl e \<Rightarrow> True
           | Inr ts \<Rightarrow> list_ex (entry_raises strict author comment required) ts))"

definition found_before_failure ::
    "world \<Rightarrow> bool \<Rightarrow> string \<Rightarrow> string \<Rightarrow> json \<Rightarrow> string \<Rightarrow> json list" where
  "found_before_failure w strict author comment required content =
     map (\<lambda>t. field t ''id'')
       (filter (selected strict author comment required)
          (takeWhile (\<lambda>t. \<not> entry_raises strict author comment required t)
             (decoded_entries w content)))"

text \<open>A response with a status other than 200.\<close>

definition rejected :: "http_result \<Rightarrow> bool" where
  "rejected res = (case res of Returns resp content \<Rightarrow> status resp \<noteq> 200 | Raises e \<Rightarrow> False)"

text \<open>The address of the \<^verbatim>\<open>DELETE\<close> for one identifier (line 362).\<close>

definition delete_uri :: "world \<Rightarrow> string \<Rightarrow> json \<Rightarrow> string" where
  "delete_uri w target_url i = target_url @ ''/api/v2/silence/'' @ format_id w i"

section \<open>Example inputs\<close>

text \<open>Lines 24 to 27: the value of \<^verbatim>\<open>request_headers\<close> when the module is loaded.\<close>

definition base_request_headers :: "string \<rightharpoonup> string" where
  "base_request_headers =
     map_of [(''Content-Type'', ''application/json; charset = UTF-8''),
             (''User-Agent'', ''drone/alertmanager'')]"

definition initial_state :: "env \<Rightarrow> state" where
  "initial_state e =
     \<lparr> environ = e, request_headers = base_request_headers, printed = [], sent = [] \<rparr>"

definition example_settings :: "string \<Rightarrow> settings" where
  "example_settings event =
     \<lparr> debug_mode = False, strict_match = False, build_event = event,
       silence_duration = ''3600'' \<rparr>"

definition example_env :: env where
  "example_env =
     map_of [(''PLUGIN_URLS'', ''http://am1,http://am2''),
             (''DRONE_REPO_OWNER'', ''acme''),
             (''DRONE_REPO_NAME'', ''shop''),
             (''DRONE_BUILD_LINK'', ''http://ci/acme/shop/7''),
             (''DRONE_BUILD_NUMBER'', ''7''),
             (''DRONE_BUILD_STARTED'', ''1000''),
             (''DRONE_BUILD_FINISHED'', ''3661''),
             (''DRONE_BUILD_EVENT'', ''promote''),
             (''DRONE_STAGE_NAME'', ''deploy''),
             (''DRONE_DEPLOY_TO'', ''prod'')]"

text \<open>
  Backends for the example runs. Each answers from the method and the address of the
  request alone.
\<close>

definition json_response :: "int \<Rightarrow> string \<Rightarrow> string \<Rightarrow> http_result" where
  "json_response code content_type content =
     Returns \<lparr> status = code, header = [''content-type'' \<mapsto> content_type] \<rparr> content"

text \<open>
  The silences of the example backends: one expired, two of this build that are not
  expired (\<open>a1\<close> and \<open>a2\<close>), one of another author, and one of this build whose matchers
  were changed (\<open>a3\<close>).
\<close>

definition example_comment :: string where
  "example_comment = ''Created for build#7 of acme/shop, see http://ci/acme/shop/7''"

definition example_matchers :: json where
  "example_matchers =
     JList [JDict [(''name'', JStr ''job''), (''value'', JStr ''shop''),
                   (''isRegex'', JBool False), (''isEqual'', JBool True)]]"

definition example_silence :: "string \<Rightarrow> string \<Rightarrow> string \<Rightarrow> json \<Rightarrow> json" where
  "example_silence i state author matchers =
     JDict [(''id'', JStr i),
            (''status'', JDict [(''state'', JStr state)]),
            (''createdBy'', JStr author),
            (''comment'', JStr example_comment),
            (''matchers'', matchers)]"

definition example_silences :: "json list" where
  "example_silences =
     [example_silence ''e0'' ''expired'' ''drone/alertmanager'' example_matchers,
      example_silence ''a1'' ''active'' ''drone/alertmanager'' example_matchers,
      example_silence ''b0'' ''active'' ''somebody'' example_matchers,
      example_silence ''a2'' ''pending'' ''drone/alertmanager'' example_matchers,
      example_silence ''a3'' ''active'' ''drone/alertmanager'' (JList [])]"

text \<open>
  A list whose second entry has no \<open>comment\<close>: the silence \<open>a1\<close> of this build comes
  before it, the silence \<open>a2\<close> of this build after it.
\<close>

definition partial_silences :: "json list" where
  "partial_silences =
     [example_silence ''a1'' ''active'' ''drone/alertmanager'' example_matchers,
      JDict [(''id'', JStr ''c0''),
             (''status'', JDict [(''state'', JStr ''active'')]),
             (''createdBy'', JStr ''drone/alertmanager'')],
      example_silence ''a2'' ''pending'' ''drone/alertmanager'' example_matchers]"

definition example_json_loads :: "string \<Rightarrow> json option" where
  "example_json_loads content =
     (if content = ''SILENCES'' then Some (JList example_silences)
      else if content = ''CREATED'' then Some (JDict [(''silenceID'', JStr ''abc'')])
      else if content = ''PARTIAL'' then Some (JList partial_silences)
      else None)"

definition example_world :: "(request list \<Rightarrow> request \<Rightarrow> http_result) \<Rightarrow> world" where
  "example_world server =
     \<lparr> http = server,
       utcnow = (\<lambda>_. 63709211378932000),
       isoformat = (\<lambda>_. ''2019-11-13T05:09:38.932000''),
       json_loads = example_json_loads,
       is_file = (\<lambda>_. False),
       render_string = (\<lambda>template _. Inr template),
       render_file = (\<lambda>_ _ _. Inl (OtherException ''TemplateNotFound'')),
       format_other = (\<lambda>_. ''?'') \<rparr>"

definition server_ok :: "request list \<Rightarrow> request \<Rightarrow> http_result" where
  "server_ok history r =
     (if request_method r = ''GET'' then json_response 200 ''application/json'' ''SILENCES''
      else if request_method r = ''POST'' then json_response 200 ''application/json'' ''CREATED''
      else json_response 200 ''application/json'' [])"


definition colon_env :: env where
  "colon_env =
     map_of [(''PLUGIN_URLS'', ''http://am1''),
             (''PLUGIN_HEADERS'', ''X-Scope-OrgID:ops,X-Origin:http://ci'')]"






text \<open>Backends that answer every request alike.\<close>

definition server_unavailable :: "request list \<Rightarrow> request \<Rightarrow> http_result" where
  "server_unavailable history r = json_response 503 ''text/plain'' ''Service Unavailable''"

definition server_html :: "request list \<Rightarrow> request \<Rightarrow> http_result" where
  "server_html history r = json_response 200 ''text/html'' ''<html>Sign in</html>''"

definition server_unreachable :: "request list \<Rightarrow> request \<Rightarrow> http_result" where
  "server_unreachable history r = Raises ServerNotFoundError"

text \<open>
  A backend that answers the search with the list holding the entry without a comment,
  and one whose answers carry no content type.
\<close>

definition server_partial :: "request list \<Rightarrow> request \<Rightarrow> http_result" where
  "server_partial history r =
     (if request_method r = ''GET'' then json_response 200 ''application/json'' ''PARTIAL''
      else json_response 200 ''application/json'' [])"

definition server_untyped :: "request list \<Rightarrow> request \<Rightarrow> http_result" where
  "server_untyped history r = Returns \<lparr> status = 200, header = Map.empty \<rparr> []"

definition html_response :: response where
  "html_response = \<lparr> status = 200, header = [''content-type'' \<mapsto> ''text/html''] \<rparr>"

text \<open>
  Backends that list the example silences and then fail every \<^verbatim>\<open>DELETE\<close>: the first
  with status 500, the second because the host name no longer resolves.
\<close>

definition server_delete_rejected :: "request list \<Rightarrow> request \<Rightarrow> http_result" where
  "server_delete_rejected history r =
     (if request_method r = ''GET'' then json_response 200 ''application/json'' ''SILENCES''
      else json_response 500 ''text/plain'' ''Internal Server Error'')"

definition server_delete_unreachable :: "request list \<Rightarrow> request \<Rightarrow> http_result" where
  "server_delete_unreachable history r =
     (if request_method r = ''GET'' then json_response 200 ''application/json'' ''SILENCES''
      else Raises ServerNotFoundError)"

section \<open>Properties of the filters\<close>

lemma re_digits_append:
  assumes "digits a" and "r = [] \<or> \<not> is_digit (hd r)"
  shows "re_digits (a @ r) = Some r"
proof -
  from assms(1) have a: "a \<noteq> []" "\<forall>x\<in>set a. is_digit x"
    by (simp_all add: digits_def list_all_iff)
  from assms(2) have tw: "takeWhile is_digit r = []" and dw: "dropWhile is_digit r = r"
    by (cases r; auto)+
  from a have "takeWhile is_digit (a @ r) = a @ takeWhile is_digit r"
    by (simp add: takeWhile_append2)
  moreover from a have "dropWhile is_digit (a @ r) = dropWhile is_digit r"
    by (simp add: dropWhile_append2)
  ultimately show ?thesis
    using a tw dw by (simp add: re_digits_def)
qed

lemma re_digits_any:
  assumes "digits a"
  shows "re_digits (a @ r) \<noteq> None"
proof -
  from assms obtain x xs where "a = x # xs" "is_digit x"
    by (cases a) (auto simp: digits_def)
  then show ?thesis by (simp add: re_digits_def)
qed

lemma re_digits_Some:
  assumes "re_digits s = Some r"
  shows "digits (takeWhile is_digit s) \<and> s = takeWhile is_digit s @ r"
proof -
  from assms have ne: "takeWhile is_digit s \<noteq> []" and r: "r = dropWhile is_digit s"
    by (auto simp: re_digits_def split: if_splits)
  have "list_all is_digit (takeWhile is_digit s)"
    by (simp add: list_all_iff) (meson set_takeWhileD)
  with ne r show ?thesis by (simp add: digits_def)
qed

lemma re_lit_Some: "re_lit c s = Some r \<longleftrightarrow> s = c # r"
  by (auto simp: re_lit_def split: list.splits)

lemma dot_not_digit: "\<not> is_digit (CHR ''.'')"
  by (simp add: is_digit_def)

lemma re_match_version_iff: "re_match_version s \<longleftrightarrow> version_shaped s"
proof
  assume "re_match_version s"
  then obtain r1 r2 r3 r4 r5 r6 where
    "re_lit (CHR ''v'') s = Some r1" "re_digits r1 = Some r2"
    "re_lit (CHR ''.'') r2 = Some r3" "re_digits r3 = Some r4"
    "re_lit (CHR ''.'') r4 = Some r5" "re_digits r5 = Some r6"
    by (auto simp: re_match_version_def bind_eq_Some_conv)
  then have "digits (takeWhile is_digit r1)" "digits (takeWhile is_digit r3)"
    "digits (takeWhile is_digit r5)"
    "s = CHR ''v'' # takeWhile is_digit r1 @ CHR ''.'' # takeWhile is_digit r3
           @ CHR ''.'' # takeWhile is_digit r5 @ r6"
    by (auto dest!: re_digits_Some simp: re_lit_Some)
  then show "version_shaped s"
    unfolding version_shaped_def by blast
next
  assume "version_shaped s"
  then obtain a b c r where d: "digits a" "digits b" "digits c"
    and s: "s = CHR ''v'' # a @ CHR ''.'' # b @ CHR ''.'' # c @ r"
    unfolding version_shaped_def by blast
  have 1: "re_lit (CHR ''v'') s = Some (a @ CHR ''.'' # b @ CHR ''.'' # c @ r)"
    by (simp add: s re_lit_Some)
  have dot: "re_lit (CHR ''.'') (CHR ''.'' # t) = Some t" for t
    by (simp add: re_lit_Some)
  have 2: "re_digits (a @ CHR ''.'' # b @ CHR ''.'' # c @ r) = Some (CHR ''.'' # b @ CHR ''.'' # c @ r)"
    using d(1) by (intro re_digits_append) (simp_all add: dot_not_digit)
  have 3: "re_digits (b @ CHR ''.'' # c @ r) = Some (CHR ''.'' # c @ r)"
    using d(2) by (intro re_digits_append) (simp_all add: dot_not_digit)
  obtain r' where 4: "re_digits (c @ r) = Some r'"
    using re_digits_any [OF d(3), of r] by auto
  show "re_match_version s"
    unfolding re_match_version_def by (simp add: 1 2 3 4 dot)
qed

text \<open>
  Claim C8. \<open>strip_version\<close> removes exactly the leading \<open>v\<close> when the input starts with
  \<open>v\<close>, digits, a dot, digits, a dot and digits, and returns the input unchanged
  otherwise; \<open>v1.2.3\<close> becomes \<open>1.2.3\<close>, while \<open>1.2.3\<close> and \<open>v1.2\<close> stay as they are.
\<close>

theorem strip_version_spec:
  "(if version_shaped s then CHR ''v'' # strip_version s = s else strip_version s = s)
   \<and> strip_version ''v1.2.3'' = ''1.2.3''
   \<and> strip_version ''1.2.3'' = ''1.2.3''
   \<and> strip_version ''v1.2'' = ''v1.2''"
proof -
  have "CHR ''v'' # strip_version s = s" if "version_shaped s"
  proof -
    from that obtain t where "s = CHR ''v'' # t"
      unfolding version_shaped_def by blast
    with that show ?thesis
      by (simp add: strip_version_def re_match_version_iff)
  qed
  moreover have "strip_version s = s" if "\<not> version_shaped s"
    using that by (simp add: strip_version_def re_match_version_iff)
  moreover have "strip_version ''v1.2.3'' = ''1.2.3''"
    by (simp add: strip_version_def re_match_version_def re_lit_def re_digits_def is_digit_def)
  moreover have "strip_version ''1.2.3'' = ''1.2.3''"
    by (simp add: strip_version_def re_match_version_def re_lit_def re_digits_def is_digit_def)
  moreover have "strip_version ''v1.2'' = ''v1.2''"
    by (simp add: strip_version_def re_match_version_def re_lit_def re_digits_def is_digit_def)
  ultimately show ?thesis by simp
qed



section \<open>The deploy-target macro\<close>

lemmas prog_defs = ret_def raise_def bnd_def lift_def print_msg_def sys_exit_def
  fatal_error_def set_env_def try_except_def

lemma replace_scan_skip: "replace_scan old new k xs = replace_scan old new 0 (drop k xs)"
proof (induction xs arbitrary: k)
  case Nil
  show ?case by simp
next
  case (Cons x xs)
  show ?case
  proof (cases k)
    case 0
    then show ?thesis by simp
  next
    case (Suc j)
    then show ?thesis using Cons.IH [of j] by simp
  qed
qed

text \<open>
  Two equations fix what \<open>py_replace\<close> computes: a string without the token is left as
  it is, and the first occurrence from the left is replaced before the rest of the
  string is treated the same way.
\<close>

lemma py_replace_absent:
  assumes "\<not> py_contains old s"
  shows "py_replace old new s = s"
  using assms unfolding py_replace_def
  by (induction s) auto

lemma startswith_append: "startswith (old @ b) old"
  by (simp add: startswith_def)

lemma py_replace_here:
  assumes "old \<noteq> []"
  shows "py_replace old new (old @ b) = new @ py_replace old new b"
proof -
  from assms obtain x o' where old: "old = x # o'" by (cases old) auto
  have "replace_scan old new 0 (x # o' @ b) = new @ replace_scan old new (length old - 1) (o' @ b)"
    using startswith_append [of old b] by (simp add: old)
  also have "replace_scan old new (length old - 1) (o' @ b) = replace_scan old new 0 b"
    using replace_scan_skip [of old new "length old - 1" "o' @ b"] by (simp add: old)
  finally show ?thesis by (simp add: py_replace_def old)
qed

lemma startswith_longer:
  assumes "length t \<le> length s"
  shows "startswith (s @ r) t = startswith s t"
  using assms by (simp add: startswith_def)

lemma py_replace_first:
  assumes "old \<noteq> []" and "\<not> py_contains old (a @ butlast old)"
  shows "py_replace old new (a @ old @ b) = a @ new @ py_replace old new b"
  using assms(2)
proof (induction a)
  case Nil
  show ?case using py_replace_here [OF assms(1)] by simp
next
  case (Cons y a)
  from Cons.prems have no: "\<not> startswith ((y # a) @ butlast old) old"
    and rest: "\<not> py_contains old (a @ butlast old)" by simp_all
  have len: "length old \<le> length ((y # a) @ butlast old)" by simp
  have "old @ b = butlast old @ (last old # b)"
    using assms(1) by (metis append_butlast_last_id append_Cons append_Nil append_assoc)
  then have "(y # a) @ old @ b = ((y # a) @ butlast old) @ (last old # b)"
    by simp
  then have "startswith ((y # a) @ old @ b) old = startswith ((y # a) @ butlast old) old"
    using startswith_longer [OF len, of "last old # b"] by metis
  with no have "\<not> startswith (y # a @ old @ b) old" by simp
  then have "py_replace old new ((y # a) @ old @ b) = y # py_replace old new (a @ old @ b)"
    by (simp add: py_replace_def)
  with Cons.IH [OF rest] show ?case by simp
qed

text \<open>
  Claim C5. A payload without the token \<open>{{deploy_target}}\<close> is returned unchanged. With
  the token: an event other than \<open>promote\<close> and \<open>rollback\<close> is fatal (an error is printed
  and the process exits with status 1), whatever \<open>DRONE_DEPLOY_TO\<close> holds; for \<open>promote\<close>
  and \<open>rollback\<close> an absent or empty \<open>DRONE_DEPLOY_TO\<close> is fatal in the same way, and
  otherwise every occurrence of the token is replaced by its value.
\<close>

theorem replace_macroses_spec:
  "(\<not> py_contains ''{{deploy_target}}'' p \<longrightarrow> replace_macroses g p s = (Inr p, s))
   \<and> (py_contains ''{{deploy_target}}'' p \<and> build_event g \<noteq> ''promote''
        \<and> build_event g \<noteq> ''rollback''
      \<longrightarrow> replace_macroses g p s =
            (Inl (SystemExit 1),
             s\<lparr>printed := printed s @
                [(''ERROR'',
                  ''Tag \"{{deploy_target}}\" is available only for promote and rollback events'',
                  [])]\<rparr>))
   \<and> (py_contains ''{{deploy_target}}'' p
        \<and> (build_event g = ''promote'' \<or> build_event g = ''rollback'')
        \<and> (environ s ''DRONE_DEPLOY_TO'' = None \<or> environ s ''DRONE_DEPLOY_TO'' = Some [])
      \<longrightarrow> replace_macroses g p s =
            (Inl (SystemExit 1),
             s\<lparr>printed := printed s @
                [(''ERROR'',
                  ''Can't replace \"{{deploy_target}}\", because \"DRONE_DEPLOY_TO\" is empty or unavailable in environment'',
                  [])]\<rparr>))
   \<and> (py_contains ''{{deploy_target}}'' p
        \<and> (build_event g = ''promote'' \<or> build_event g = ''rollback'')
        \<and> environ s ''DRONE_DEPLOY_TO'' = Some d \<and> d \<noteq> []
      \<longrightarrow> replace_macroses g p s = (Inr (py_replace ''{{deploy_target}}'' d p), s))"
  by (auto simp: replace_macroses_def deploy_target_token_def prog_defs)

theorem replace_macroses_witness:
  "\<not> py_contains ''{{deploy_target}}'' ''plain''
   \<and> replace_macroses (example_settings ''push'') ''plain'' (initial_state example_env)
       = (Inr ''plain'', initial_state example_env)
   \<and> py_contains ''{{deploy_target}}'' ''to {{deploy_target}}, {{deploy_target}}!''
   \<and> fst (replace_macroses (example_settings ''push'')
            ''to {{deploy_target}}, {{deploy_target}}!'' (initial_state example_env))
       = Inl (SystemExit 1)
   \<and> fst (replace_macroses (example_settings ''promote'')
            ''to {{deploy_target}}, {{deploy_target}}!'' (initial_state Map.empty))
       = Inl (SystemExit 1)
   \<and> replace_macroses (example_settings ''promote'')
        ''to {{deploy_target}}, {{deploy_target}}!'' (initial_state example_env)
       = (Inr ''to prod, prod!'', initial_state example_env)"
  using replace_macroses_spec [of "''plain''" "example_settings ''push''"
          "initial_state example_env" "''prod''"]
        replace_macroses_spec [of "''to {{deploy_target}}, {{deploy_target}}!''"
          "example_settings ''push''" "initial_state example_env" "''prod''"]
        replace_macroses_spec [of "''to {{deploy_target}}, {{deploy_target}}!''"
          "example_settings ''promote''" "initial_state Map.empty" "''prod''"]
        replace_macroses_spec [of "''to {{deploy_target}}, {{deploy_target}}!''"
          "example_settings ''promote''" "initial_state example_env" "''prod''"]
  by (simp add: startswith_def example_settings_def initial_state_def example_env_def
        py_replace_def)

section \<open>Frame and outcome lemmas for make\_request\<close>

lemma replace_macroses_frame:
  "environ (snd (replace_macroses g p s)) = environ s
   \<and> request_headers (snd (replace_macroses g p s)) = request_headers s
   \<and> sent (snd (replace_macroses g p s)) = sent s"
  by (simp add: replace_macroses_def prog_defs split: option.splits)

lemma render_template_frame:
  "environ (snd (render_template w g t s)) = environ s
   \<and> request_headers (snd (render_template w g t s)) = request_headers s
   \<and> sent (snd (render_template w g t s)) = sent s"
  using replace_macroses_frame
  by (simp add: render_template_def Let_def prog_defs split: sum.splits)

lemma render_custom_template_frame:
  "environ (snd (render_custom_template w g t s)) = environ s
   \<and> request_headers (snd (render_custom_template w g t s)) = request_headers s
   \<and> sent (snd (render_custom_template w g t s)) = sent s"
  using replace_macroses_frame
  by (simp add: render_custom_template_def prog_defs split: sum.splits)

lemma render_payload_frame:
  "environ (snd (render_payload w g t s)) = environ s
   \<and> request_headers (snd (render_payload w g t s)) = request_headers s
   \<and> sent (snd (render_payload w g t s)) = sent s"
proof (cases "t = Some ''create''")
  case False
  then show ?thesis by (simp add: render_payload_def prog_defs)
next
  case True
  show ?thesis
  proof (cases "in_env (environ s) ''PLUGIN_CUSTOM_TEMPLATE''")
    case c: True
    obtain r s' where r: "render_custom_template w g (from_env (environ s) ''PLUGIN_CUSTOM_TEMPLATE'' []) s = (r, s')"
      by (cases "render_custom_template w g (from_env (environ s) ''PLUGIN_CUSTOM_TEMPLATE'' []) s")
    with render_custom_template_frame [of w g "from_env (environ s) ''PLUGIN_CUSTOM_TEMPLATE'' []" s]
    have "environ s' = environ s \<and> request_headers s' = request_headers s \<and> sent s' = sent s"
      by simp
    with True c r show ?thesis
      by (simp add: render_payload_def prog_defs split: sum.splits raised.splits)
  next
    case c: False
    show ?thesis
    proof (cases "in_env (environ s) ''PLUGIN_TEMPLATE''")
      case False
      with True c show ?thesis by (simp add: render_payload_def prog_defs)
    next
      case t: True
      obtain r s' where r: "render_template w g (from_env (environ s) ''PLUGIN_TEMPLATE'' ''default'' @ ''/create'') s = (r, s')"
        by (cases "render_template w g (from_env (environ s) ''PLUGIN_TEMPLATE'' ''default'' @ ''/create'') s")
      with render_template_frame [of w g "from_env (environ s) ''PLUGIN_TEMPLATE'' ''default'' @ ''/create''" s]
      have "environ s' = environ s \<and> request_headers s' = request_headers s \<and> sent s' = sent s"
        by simp
      with True c t r show ?thesis
        by (simp add: render_payload_def prog_defs split: sum.splits raised.splits)
    qed
  qed
qed

lemma build_request_frame: "snd (build_request u m p s) = s"
  by (simp add: build_request_def Let_def prog_defs split: option.splits)

lemma debug_request_frame:
  "environ (snd (debug_request g r s)) = environ s
   \<and> request_headers (snd (debug_request g r s)) = request_headers s
   \<and> sent (snd (debug_request g r s)) = sent s"
  by (simp add: debug_request_def prog_defs)

lemma send_request_frame:
  "environ (snd (send_request w g r s)) = environ s
   \<and> request_headers (snd (send_request w g r s)) = request_headers s
   \<and> sent (snd (send_request w g r s)) = sent s @ [r]"
  by (simp add: send_request_def Let_def prog_defs split: http_result.splits)

lemma bnd_assoc: "bnd (bnd m f) h = bnd m (\<lambda>x. bnd (f x) h)"
  by (rule ext) (simp add: bnd_def split: prod.splits sum.splits)

lemma ret_bnd: "bnd (ret x) f = f x"
  by (rule ext) (simp add: bnd_def ret_def)

lemma make_request_prepare:
  "make_request w g u m t = bnd (prepare_request w g u m t) (send_request w g)"
  by (simp add: make_request_def prepare_request_def bnd_assoc ret_bnd)

lemma set_duration_frame:
  assumes "set_duration key sk ek s = (res, s')"
  shows "request_headers s' = request_headers s \<and> sent s' = sent s \<and> printed s' = printed s
         \<and> (\<forall>k. k \<noteq> key \<longrightarrow> environ s' k = environ s k)"
  using assms by (auto simp: set_duration_def prog_defs split: if_splits sum.splits)

lemma derive_durations_frame:
  assumes "derive_durations s = (res, s')"
  shows "request_headers s' = request_headers s \<and> sent s' = sent s \<and> printed s' = printed s
         \<and> (\<forall>k. k \<noteq> ''DRONE_BUILD_TOTALTIME'' \<and> k \<noteq> ''DRONE_BUILD_QUEUEDTIME''
                \<longrightarrow> environ s' k = environ s k)"
proof -
  obtain r1 s1 where 1: "set_duration ''DRONE_BUILD_TOTALTIME'' ''DRONE_BUILD_STARTED'' ''DRONE_BUILD_FINISHED'' s = (r1, s1)"
    by (cases "set_duration ''DRONE_BUILD_TOTALTIME'' ''DRONE_BUILD_STARTED'' ''DRONE_BUILD_FINISHED'' s")
  note f1 = set_duration_frame [OF 1]
  show ?thesis
  proof (cases r1)
    case (Inl a)
    with assms 1 have "s' = s1" by (simp add: derive_durations_def bnd_def)
    with f1 show ?thesis by simp
  next
    case (Inr b)
    with assms 1 have 2: "set_duration ''DRONE_BUILD_QUEUEDTIME'' ''DRONE_BUILD_CREATED'' ''DRONE_BUILD_STARTED'' s1 = (res, s')"
      by (simp add: derive_durations_def bnd_def)
    from set_duration_frame [OF 2] f1 show ?thesis by simp
  qed
qed

lemma parse_headers_frame:
  assumes "parse_headers s = (res, s')"
  shows "environ s' = environ s \<and> sent s' = sent s \<and> printed s' = printed s"
  using assms by (auto simp: parse_headers_def prog_defs split: if_splits sum.splits)

lemma set_duration_ok:
  assumes "duration_ok (environ s) sk ek"
  shows "\<exists>s'. set_duration key sk ek s = (Inr (), s')"
  using assms
  by (auto simp: duration_ok_def set_duration_def prog_defs split: sum.splits)

lemma duration_ok_cong:
  assumes "e sk = e' sk" and "e ek = e' ek"
  shows "duration_ok e sk ek = duration_ok e' sk ek"
  using assms by (simp add: duration_ok_def in_env_def from_env_def)

lemma request_ready_cong:
  assumes "\<forall>k. k \<noteq> ''DRONE_BUILD_TOTALTIME'' \<and> k \<noteq> ''DRONE_BUILD_QUEUEDTIME'' \<longrightarrow> e' k = e k"
  shows "request_ready e' = request_ready e"
proof -
  have k: "e' ''DRONE_BUILD_STARTED'' = e ''DRONE_BUILD_STARTED''"
    "e' ''DRONE_BUILD_FINISHED'' = e ''DRONE_BUILD_FINISHED''"
    "e' ''DRONE_BUILD_CREATED'' = e ''DRONE_BUILD_CREATED''"
    "e' ''PLUGIN_HEADERS'' = e ''PLUGIN_HEADERS''"
    "e' ''PLUGIN_TIMEOUT'' = e ''PLUGIN_TIMEOUT''"
    using assms by simp_all
  show ?thesis
    by (simp add: request_ready_def duration_ok_def in_env_def from_env_def k)
qed

lemma derive_durations_ok:
  assumes "request_ready (environ s)"
  shows "\<exists>s'. derive_durations s = (Inr (), s')"
proof -
  from assms have 1: "duration_ok (environ s) ''DRONE_BUILD_STARTED'' ''DRONE_BUILD_FINISHED''"
    and 2: "duration_ok (environ s) ''DRONE_BUILD_CREATED'' ''DRONE_BUILD_STARTED''"
    by (simp_all add: request_ready_def)
  from set_duration_ok [OF 1] obtain s1 where
    s1: "set_duration ''DRONE_BUILD_TOTALTIME'' ''DRONE_BUILD_STARTED'' ''DRONE_BUILD_FINISHED'' s = (Inr (), s1)"
    by blast
  from set_duration_frame [OF s1]
  have "environ s1 ''DRONE_BUILD_CREATED'' = environ s ''DRONE_BUILD_CREATED''"
    "environ s1 ''DRONE_BUILD_STARTED'' = environ s ''DRONE_BUILD_STARTED''"
    by simp_all
  with 2 have "duration_ok (environ s1) ''DRONE_BUILD_CREATED'' ''DRONE_BUILD_STARTED''"
    using duration_ok_cong [of "environ s1" "''DRONE_BUILD_CREATED''" "environ s"
        "''DRONE_BUILD_STARTED''"]
    by simp
  from set_duration_ok [OF this] obtain s2 where
    "set_duration ''DRONE_BUILD_QUEUEDTIME'' ''DRONE_BUILD_CREATED'' ''DRONE_BUILD_STARTED'' s1 = (Inr (), s2)"
    by blast
  with s1 show ?thesis by (simp add: derive_durations_def bnd_def)
qed

lemma parse_headers_ok:
  assumes "request_ready (environ s)"
  shows "\<exists>s'. parse_headers s = (Inr (), s')"
  using assms
  by (auto simp: request_ready_def parse_headers_def prog_defs split: sum.splits if_splits)

lemma build_request_ok:
  assumes "request_ready (environ s)"
  shows "\<exists>r. build_request u m p s = (Inr r, s) \<and> uri r = u \<and> request_method r = m
             \<and> headers r = request_headers s \<and> body r = p"
  using assms
  by (auto simp: request_ready_def build_request_def Let_def prog_defs split: if_splits)

lemma debug_request_ok: "\<exists>s'. debug_request g r s = (Inr (), s')"
  by (simp add: debug_request_def prog_defs)

text \<open>Without the template name \<open>create\<close> nothing is rendered.\<close>

lemma prepare_request_ok:
  assumes "request_ready (environ s)" and "t \<noteq> Some ''create''"
  shows "\<exists>r s'. prepare_request w g u m t s = (Inr r, s') \<and> uri r = u \<and> request_method r = m
            \<and> sent s' = sent s
            \<and> headers r = request_headers s'
            \<and> (\<forall>k. k \<noteq> ''DRONE_BUILD_TOTALTIME'' \<and> k \<noteq> ''DRONE_BUILD_QUEUEDTIME''
                  \<longrightarrow> environ s' k = environ s k)"
proof -
  from derive_durations_ok [OF assms(1)] obtain s1 where 1: "derive_durations s = (Inr (), s1)"
    by blast
  note f1 = derive_durations_frame [OF 1]
  then have r1: "request_ready (environ s1)"
    using assms(1) request_ready_cong [of "environ s1" "environ s"] by simp
  from parse_headers_ok [OF r1] obtain s2 where 2: "parse_headers s1 = (Inr (), s2)"
    by blast
  note f2 = parse_headers_frame [OF 2]
  then have r2: "request_ready (environ s2)" using r1 by simp
  have 3: "render_payload w g t s2 = (Inr EmptyDict, s2)"
    using assms(2) by (simp add: render_payload_def ret_def)
  from build_request_ok [OF r2, of u m EmptyDict] obtain r where
    4: "build_request u m EmptyDict s2 = (Inr r, s2)" and r: "uri r = u" "request_method r = m"
    "headers r = request_headers s2"
    by blast
  from debug_request_ok [of g r s2] obtain s3 where 5: "debug_request g r s2 = (Inr (), s3)"
    by blast
  from debug_request_frame [of g r s2] 5
  have f5: "environ s3 = environ s2" "sent s3 = sent s2" "request_headers s3 = request_headers s2"
    by simp_all
  have "prepare_request w g u m t s = (Inr r, s3)"
    by (simp add: prepare_request_def bnd_def ret_def 1 2 3 4 5)
  with r f1 f2 f5 show ?thesis by simp
qed

lemma set_duration_present:
  assumes "in_env (environ s) sk" "in_env (environ s) ek" "integer_endpoints (environ s) sk ek"
  shows "set_duration key sk ek s =
           (Inr (), s\<lparr>environ := (environ s)(key \<mapsto>
               timedelta_str (env_int (environ s) ek - env_int (environ s) sk))\<rparr>)"
  using assms
  by (auto simp: set_duration_def integer_endpoints_def env_int_def timestamp_diff_def
        prog_defs)

lemma set_duration_absent:
  assumes "\<not> (in_env (environ s) sk \<and> in_env (environ s) ek)"
  shows "set_duration key sk ek s = (Inr (), s)"
  using assms by (auto simp: set_duration_def prog_defs)

lemma make_request_environ:
  assumes d: "derive_durations s = (Inr (), s1)"
    and m: "make_request w g u m t s = (res, s'')"
  shows "environ s'' = environ s1"
proof -
  obtain r2 s2 where 2: "parse_headers s1 = (r2, s2)" by (cases "parse_headers s1")
  have e2: "environ s2 = environ s1" using parse_headers_frame [OF 2] by simp
  show ?thesis
  proof (cases r2)
    case (Inl a)
    with d 2 m have "s'' = s2" by (simp add: make_request_def bnd_def)
    with e2 show ?thesis by simp
  next
    case r2: (Inr b)
    obtain r3 s3 where 3: "render_payload w g t s2 = (r3, s3)" by (cases "render_payload w g t s2")
    have e3: "environ s3 = environ s2" using render_payload_frame [of w g t s2] 3 by simp
    show ?thesis
    proof (cases r3)
      case (Inl a)
      with d 2 r2 3 m have "s'' = s3" by (simp add: make_request_def bnd_def)
      with e2 e3 show ?thesis by simp
    next
      case r3: (Inr p)
      obtain r4 s4 where 4: "build_request u m p s3 = (r4, s4)" by (cases "build_request u m p s3")
      have e4: "s4 = s3" using build_request_frame [of u m p s3] 4 by simp
      show ?thesis
      proof (cases r4)
        case (Inl a)
        with d 2 r2 3 r3 4 m have "s'' = s4" by (simp add: make_request_def bnd_def)
        with e2 e3 e4 show ?thesis by simp
      next
        case r4: (Inr r)
        obtain s5 where 5: "debug_request g r s4 = (Inr (), s5)"
          using debug_request_ok by blast
        have e5: "environ s5 = environ s4" using debug_request_frame [of g r s4] 5 by simp
        from d 2 r2 3 r3 4 r4 5 m have "send_request w g r s5 = (res, s'')"
          by (simp add: make_request_def bnd_def)
        then have "environ s'' = environ s5" using send_request_frame [of w g r s5] by simp
        with e2 e3 e4 e5 show ?thesis by simp
      qed
    qed
  qed
qed

section \<open>The derived durations\<close>

lemma py_int_examples: "py_int ''1000'' = Some 1000" "py_int ''3661'' = Some 3661"
  by (simp_all add: py_int_def int_strip_def is_int_space_def is_digit_def
        digits_value_def digit_val_def Let_def)

text \<open>
  A separator that \<^verbatim>\<open>strip\<close> removes and \<^verbatim>\<open>int\<close> does not skip: the string is not an
  integer, and the difference raises \<^verbatim>\<open>ValueError\<close>.
\<close>

lemma py_int_separator:
  "py_strip (CHR 0x1C # ''1000'') = ''1000''"
  "py_int (CHR 0x1C # ''1000'') = None"
  "py_int (CHR 0x20 # ''1000'' @ [CHR 0x0A]) = Some 1000"
  "timestamp_diff (CHR 0x1C # ''1000'') ''3661'' = Inl ValueError"
  by (simp_all add: py_strip_def is_space_def timestamp_diff_def py_int_def int_strip_def
        is_int_space_def is_digit_def digits_value_def digit_val_def Let_def)

lemma timedelta_str_example: "timedelta_str 2661 = ''0:44:21''"
  by (simp add: timedelta_str_def timedelta_days_def timedelta_seconds_def fmt_d_def
        fmt_02d_def dec.simps Let_def)

text \<open>
  Claim C6. A derived duration is computed only when both endpoints of its interval are
  in the environment and not empty: \<open>DRONE_BUILD_TOTALTIME\<close> from build-started and
  build-finished, \<open>DRONE_BUILD_QUEUEDTIME\<close> from build-created and build-started. When
  the endpoints that are present are integers, the value written back into the
  environment is the string form of \<^verbatim>\<open>datetime.timedelta\<close> for the integer difference
  end minus start, every other variable keeps its value, and the rest of
  \<open>make_request\<close> leaves the environment as these lines made it. Start 1000 and end 3661
  give \<open>0:44:21\<close>.
\<close>

theorem derive_durations_spec:
  "((in_env (environ s) ''DRONE_BUILD_STARTED'' \<and> in_env (environ s) ''DRONE_BUILD_FINISHED''
       \<longrightarrow> integer_endpoints (environ s) ''DRONE_BUILD_STARTED'' ''DRONE_BUILD_FINISHED'')
    \<and> (in_env (environ s) ''DRONE_BUILD_CREATED'' \<and> in_env (environ s) ''DRONE_BUILD_STARTED''
       \<longrightarrow> integer_endpoints (environ s) ''DRONE_BUILD_CREATED'' ''DRONE_BUILD_STARTED'')
    \<longrightarrow> (\<exists>s'. derive_durations s = (Inr (), s')
          \<and> environ s' ''DRONE_BUILD_TOTALTIME'' =
              (if in_env (environ s) ''DRONE_BUILD_STARTED''
                  \<and> in_env (environ s) ''DRONE_BUILD_FINISHED''
               then Some (timedelta_str (env_int (environ s) ''DRONE_BUILD_FINISHED''
                                         - env_int (environ s) ''DRONE_BUILD_STARTED''))
               else environ s ''DRONE_BUILD_TOTALTIME'')
          \<and> environ s' ''DRONE_BUILD_QUEUEDTIME'' =
              (if in_env (environ s) ''DRONE_BUILD_CREATED''
                  \<and> in_env (environ s) ''DRONE_BUILD_STARTED''
               then Some (timedelta_str (env_int (environ s) ''DRONE_BUILD_STARTED''
                                         - env_int (environ s) ''DRONE_BUILD_CREATED''))
               else environ s ''DRONE_BUILD_QUEUEDTIME'')
          \<and> (\<forall>k. k \<noteq> ''DRONE_BUILD_TOTALTIME'' \<and> k \<noteq> ''DRONE_BUILD_QUEUEDTIME''
                \<longrightarrow> environ s' k = environ s k)
          \<and> (\<forall>w g u m t res s''. make_request w g u m t s = (res, s'')
                \<longrightarrow> environ s'' = environ s')))
   \<and> timestamp_diff ''1000'' ''3661'' = Inr ''0:44:21''"
proof -
  let ?e = "environ s"
  let ?T = "in_env ?e ''DRONE_BUILD_STARTED'' \<and> in_env ?e ''DRONE_BUILD_FINISHED''"
  let ?Q = "in_env ?e ''DRONE_BUILD_CREATED'' \<and> in_env ?e ''DRONE_BUILD_STARTED''"
  have ex: "timestamp_diff ''1000'' ''3661'' = Inr ''0:44:21''"
    by (simp add: timestamp_diff_def py_int_examples timedelta_str_example
          timedelta_overflow_def timedelta_days_def)
  have main: "\<exists>s'. derive_durations s = (Inr (), s')
          \<and> environ s' ''DRONE_BUILD_TOTALTIME'' =
              (if ?T
               then Some (timedelta_str (env_int ?e ''DRONE_BUILD_FINISHED''
                                         - env_int ?e ''DRONE_BUILD_STARTED''))
               else ?e ''DRONE_BUILD_TOTALTIME'')
          \<and> environ s' ''DRONE_BUILD_QUEUEDTIME'' =
              (if ?Q
               then Some (timedelta_str (env_int ?e ''DRONE_BUILD_STARTED''
                                         - env_int ?e ''DRONE_BUILD_CREATED''))
               else ?e ''DRONE_BUILD_QUEUEDTIME'')
          \<and> (\<forall>k. k \<noteq> ''DRONE_BUILD_TOTALTIME'' \<and> k \<noteq> ''DRONE_BUILD_QUEUEDTIME''
                \<longrightarrow> environ s' k = ?e k)
          \<and> (\<forall>w g u m t res s''. make_request w g u m t s = (res, s'')
                \<longrightarrow> environ s'' = environ s')"
    if t: "?T \<longrightarrow> integer_endpoints ?e ''DRONE_BUILD_STARTED'' ''DRONE_BUILD_FINISHED''"
    and q: "?Q \<longrightarrow> integer_endpoints ?e ''DRONE_BUILD_CREATED'' ''DRONE_BUILD_STARTED''"
  proof -
    define s1 where "s1 = (if ?T then s\<lparr>environ := ?e(''DRONE_BUILD_TOTALTIME'' \<mapsto>
        timedelta_str (env_int ?e ''DRONE_BUILD_FINISHED'' - env_int ?e ''DRONE_BUILD_STARTED''))\<rparr>
      else s)"
    have 1: "set_duration ''DRONE_BUILD_TOTALTIME'' ''DRONE_BUILD_STARTED'' ''DRONE_BUILD_FINISHED'' s
               = (Inr (), s1)"
      using t set_duration_present [of s "''DRONE_BUILD_STARTED''" "''DRONE_BUILD_FINISHED''"]
        set_duration_absent [of s "''DRONE_BUILD_STARTED''" "''DRONE_BUILD_FINISHED''"]
      by (simp add: s1_def)
    have same: "environ s1 ''DRONE_BUILD_CREATED'' = ?e ''DRONE_BUILD_CREATED''"
      "environ s1 ''DRONE_BUILD_STARTED'' = ?e ''DRONE_BUILD_STARTED''"
      by (simp_all add: s1_def)
    then have q1: "in_env (environ s1) ''DRONE_BUILD_CREATED'' = in_env ?e ''DRONE_BUILD_CREATED''"
      "in_env (environ s1) ''DRONE_BUILD_STARTED'' = in_env ?e ''DRONE_BUILD_STARTED''"
      "env_int (environ s1) ''DRONE_BUILD_CREATED'' = env_int ?e ''DRONE_BUILD_CREATED''"
      "env_int (environ s1) ''DRONE_BUILD_STARTED'' = env_int ?e ''DRONE_BUILD_STARTED''"
      "integer_endpoints (environ s1) ''DRONE_BUILD_CREATED'' ''DRONE_BUILD_STARTED''
         = integer_endpoints ?e ''DRONE_BUILD_CREATED'' ''DRONE_BUILD_STARTED''"
      by (simp_all add: in_env_def from_env_def env_int_def integer_endpoints_def)
    define s2 where "s2 = (if ?Q then s1\<lparr>environ := (environ s1)(''DRONE_BUILD_QUEUEDTIME'' \<mapsto>
        timedelta_str (env_int ?e ''DRONE_BUILD_STARTED'' - env_int ?e ''DRONE_BUILD_CREATED''))\<rparr>
      else s1)"
    have 2: "set_duration ''DRONE_BUILD_QUEUEDTIME'' ''DRONE_BUILD_CREATED'' ''DRONE_BUILD_STARTED'' s1
               = (Inr (), s2)"
      using q q1 set_duration_present [of s1 "''DRONE_BUILD_CREATED''" "''DRONE_BUILD_STARTED''"]
        set_duration_absent [of s1 "''DRONE_BUILD_CREATED''" "''DRONE_BUILD_STARTED''"]
      by (simp add: s2_def)
    have d: "derive_durations s = (Inr (), s2)"
      by (simp add: derive_durations_def bnd_def 1 2)
    have "environ s2 ''DRONE_BUILD_TOTALTIME'' =
              (if ?T
               then Some (timedelta_str (env_int ?e ''DRONE_BUILD_FINISHED''
                                         - env_int ?e ''DRONE_BUILD_STARTED''))
               else ?e ''DRONE_BUILD_TOTALTIME'')"
      by (simp add: s2_def s1_def)
    moreover have "environ s2 ''DRONE_BUILD_QUEUEDTIME'' =
              (if ?Q
               then Some (timedelta_str (env_int ?e ''DRONE_BUILD_STARTED''
                                         - env_int ?e ''DRONE_BUILD_CREATED''))
               else ?e ''DRONE_BUILD_QUEUEDTIME'')"
      by (simp add: s2_def s1_def)
    moreover have "\<forall>k. k \<noteq> ''DRONE_BUILD_TOTALTIME'' \<and> k \<noteq> ''DRONE_BUILD_QUEUEDTIME''
                \<longrightarrow> environ s2 k = ?e k"
      by (simp add: s2_def s1_def)
    moreover have "\<forall>w g u m t res s''. make_request w g u m t s = (res, s'')
                \<longrightarrow> environ s'' = environ s2"
      using make_request_environ [OF d] by blast
    ultimately show ?thesis using d by blast
  qed
  from main ex show ?thesis by blast
qed

theorem derive_durations_witness:
  "in_env example_env ''DRONE_BUILD_STARTED'' \<and> in_env example_env ''DRONE_BUILD_FINISHED''
   \<and> integer_endpoints example_env ''DRONE_BUILD_STARTED'' ''DRONE_BUILD_FINISHED''
   \<and> \<not> in_env example_env ''DRONE_BUILD_CREATED''
   \<and> (\<exists>s'. derive_durations (initial_state example_env) = (Inr (), s')
         \<and> environ s' ''DRONE_BUILD_TOTALTIME'' = Some ''0:44:21''
         \<and> environ s' ''DRONE_BUILD_QUEUEDTIME'' = None
         \<and> environ s' ''DRONE_BUILD_STARTED'' = Some ''1000'')"
proof -
  have env: "environ (initial_state example_env) = example_env"
    by (simp add: initial_state_def)
  have v: "from_env example_env ''DRONE_BUILD_STARTED'' [] = ''1000''"
    "from_env example_env ''DRONE_BUILD_FINISHED'' [] = ''3661''"
    "from_env example_env ''DRONE_BUILD_CREATED'' [] = []"
    by (simp_all add: from_env_def example_env_def)
  have p: "in_env example_env ''DRONE_BUILD_STARTED''" "in_env example_env ''DRONE_BUILD_FINISHED''"
    "\<not> in_env example_env ''DRONE_BUILD_CREATED''"
    by (simp_all add: in_env_def v)
  have i: "env_int example_env ''DRONE_BUILD_STARTED'' = 1000"
    "env_int example_env ''DRONE_BUILD_FINISHED'' = 3661"
    by (simp_all add: env_int_def v py_int_examples)
  have e: "integer_endpoints example_env ''DRONE_BUILD_STARTED'' ''DRONE_BUILD_FINISHED''"
    by (simp add: integer_endpoints_def i v py_int_examples timedelta_overflow_def
          timedelta_days_def)
  have n: "example_env ''DRONE_BUILD_QUEUEDTIME'' = None"
    "example_env ''DRONE_BUILD_STARTED'' = Some ''1000''"
    by (simp_all add: example_env_def)
  from derive_durations_spec [of "initial_state example_env"] p e
  obtain s' where d: "derive_durations (initial_state example_env) = (Inr (), s')"
    and t: "environ s' ''DRONE_BUILD_TOTALTIME'' =
              Some (timedelta_str (env_int example_env ''DRONE_BUILD_FINISHED''
                                   - env_int example_env ''DRONE_BUILD_STARTED''))"
    and q: "environ s' ''DRONE_BUILD_QUEUEDTIME'' = example_env ''DRONE_BUILD_QUEUEDTIME''"
    and k: "\<forall>k. k \<noteq> ''DRONE_BUILD_TOTALTIME'' \<and> k \<noteq> ''DRONE_BUILD_QUEUEDTIME''
                \<longrightarrow> environ s' k = example_env k"
    unfolding env by (elim conjE impE exE) simp_all
  from k have "environ s' ''DRONE_BUILD_STARTED'' = example_env ''DRONE_BUILD_STARTED''"
    by simp
  with d t q n p e show ?thesis
    by (simp add: i timedelta_str_example)
qed

section \<open>The header list\<close>

lemma py_split_not_Nil: "py_split c s \<noteq> []"
  by (induction s) (auto split: list.splits)

lemma length_py_split: "length (py_split c s) = Suc (count_list s c)"
proof (induction s)
  case Nil
  show ?case by simp
next
  case (Cons x xs)
  then show ?case
    using py_split_not_Nil [of c xs] by (auto split: list.splits)
qed

lemma two_parts: "(\<exists>k v. py_split c h = [k, v]) \<longleftrightarrow> count_list h c = 1"
proof -
  have "(\<exists>k v. py_split c h = [k, v]) \<longleftrightarrow> length (py_split c h) = 2"
    by (auto simp: length_Suc_conv numeral_2_eq_2)
  then show ?thesis by (simp add: length_py_split)
qed

lemma custom_headers_step:
  "custom_headers (h # hs) c =
     (if count_list h (CHR '':'') = 1
      then custom_headers hs (c(py_strip (py_split (CHR '':'') h ! 0)
                                  \<mapsto> py_strip (py_split (CHR '':'') h ! 1)))
      else Inl ValueError)"
proof (cases "count_list h (CHR '':'') = 1")
  case True
  then obtain k v where "py_split (CHR '':'') h = [k, v]" using two_parts by blast
  with True show ?thesis by simp
next
  case False
  then have "\<nexists>k v. py_split (CHR '':'') h = [k, v]" using two_parts by blast
  with False show ?thesis
    by (auto split: list.splits)
qed

lemma custom_headers_bad:
  assumes "h \<in> set hs" and "count_list h (CHR '':'') \<noteq> 1"
  shows "custom_headers hs c = Inl ValueError"
  using assms
proof (induction hs arbitrary: c)
  case Nil
  then show ?case by simp
next
  case (Cons x xs)
  show ?case
  proof (cases "count_list x (CHR '':'') = 1")
    case False
    then show ?thesis by (simp add: custom_headers_step del: custom_headers.simps)
  next
    case True
    with Cons.prems have "h \<in> set xs" by auto
    from Cons.IH [OF this Cons.prems(2)] True show ?thesis
      by (simp add: custom_headers_step del: custom_headers.simps)
  qed
qed

text \<open>What \<open>parse_headers\<close> does to the state, case by case.\<close>

lemma parse_headers_cases:
  "parse_headers s =
     (if in_env (environ s) ''PLUGIN_HEADERS''
      then (case custom_headers (py_split (CHR '','') (from_env (environ s) ''PLUGIN_HEADERS'' []))
                   Map.empty of
              Inl e \<Rightarrow> (Inl (Exception e), s)
            | Inr c \<Rightarrow> (Inr (), s\<lparr>request_headers := request_headers s ++ c\<rparr>))
      else (Inr (), s))"
  by (simp add: parse_headers_def prog_defs split: sum.splits)

lemma derive_durations_raises:
  assumes "derive_durations s = (Inl r, s')"
  shows "\<exists>e. r = Exception e"
  using assms
  by (auto simp: derive_durations_def set_duration_def prog_defs
      split: if_splits sum.splits prod.splits)

lemma bad_headers_cong:
  "e' ''PLUGIN_HEADERS'' = e ''PLUGIN_HEADERS'' \<Longrightarrow> bad_headers e' = bad_headers e"
  by (simp add: bad_headers_def in_env_def from_env_def)

lemma parse_headers_bad:
  assumes "bad_headers (environ s)"
  shows "parse_headers s = (Inl (Exception ValueError), s)"
proof -
  from assms obtain h where
    "h \<in> set (py_split (CHR '','') (from_env (environ s) ''PLUGIN_HEADERS'' []))"
    "count_list h (CHR '':'') \<noteq> 1"
    by (auto simp: bad_headers_def list_ex_iff)
  from custom_headers_bad [OF this] assms show ?thesis
    by (simp add: parse_headers_cases bad_headers_def)
qed

lemma make_request_bad_headers:
  assumes "bad_headers (environ s)"
  shows "\<exists>e s'. make_request w g u m t s = (Inl (Exception e), s') \<and> sent s' = sent s
           \<and> request_headers s' = request_headers s"
proof -
  obtain r1 s1 where 1: "derive_durations s = (r1, s1)" by (cases "derive_durations s")
  note f = derive_durations_frame [OF 1]
  show ?thesis
  proof (cases r1)
    case (Inl r)
    with 1 derive_durations_raises obtain e where "r = Exception e" by blast
    with Inl 1 have "make_request w g u m t s = (Inl (Exception e), s1)"
      by (simp add: make_request_def bnd_def)
    with f show ?thesis by simp
  next
    case (Inr x)
    from f have "environ s1 ''PLUGIN_HEADERS'' = environ s ''PLUGIN_HEADERS''" by simp
    with assms have "bad_headers (environ s1)" using bad_headers_cong by blast
    from parse_headers_bad [OF this] Inr 1
    have "make_request w g u m t s = (Inl (Exception ValueError), s1)"
      by (simp add: make_request_def bnd_def)
    with f show ?thesis by simp
  qed
qed

lemma bad_headers_upd:
  "k \<noteq> ''PLUGIN_HEADERS'' \<Longrightarrow> bad_headers (e(k \<mapsto> v)) = bad_headers e"
  by (rule bad_headers_cong) simp

lemma make_request_bad:
  assumes "bad_headers (environ s)"
  shows "make_request w g u m t s = bnd derive_durations (\<lambda>_. raise (Exception ValueError)) s"
proof -
  obtain r1 s1 where 1: "derive_durations s = (r1, s1)" by (cases "derive_durations s")
  show ?thesis
  proof (cases r1)
    case (Inl r)
    with 1 show ?thesis by (simp add: make_request_def bnd_def)
  next
    case (Inr x)
    from derive_durations_frame [OF 1]
    have "environ s1 ''PLUGIN_HEADERS'' = environ s ''PLUGIN_HEADERS''" by simp
    with assms have "bad_headers (environ s1)" using bad_headers_cong by blast
    from parse_headers_bad [OF this] Inr 1 show ?thesis
      by (simp add: make_request_def bnd_def raise_def)
  qed
qed

lemma derive_then_raise:
  "isl (fst (bnd derive_durations (\<lambda>_. raise r) s))
   \<and> sent (snd (bnd derive_durations (\<lambda>_. raise r) s)) = sent s"
proof -
  obtain r1 s1 where 1: "derive_durations s = (r1, s1)" by (cases "derive_durations s")
  with derive_durations_frame [OF 1] show ?thesis
    by (cases r1) (simp_all add: bnd_def raise_def)
qed

lemma make_request_bad_aborts:
  assumes "bad_headers (environ s)"
  shows "isl (fst (make_request w g u m t s)) \<and> sent (snd (make_request w g u m t s)) = sent s"
  using make_request_bad [OF assms] derive_then_raise by simp

lemma bnd_aborts:
  assumes "isl (fst (m s)) \<and> sent (snd (m s)) = sent s"
  shows "isl (fst (bnd m f s)) \<and> sent (snd (bnd m f s)) = sent s"
  using assms by (cases "m s") (auto simp: bnd_def split: sum.splits)

lemma bnd_aborts_later:
  assumes "\<And>r s'. m s = (r, s') \<Longrightarrow> sent s' = sent s"
    and "\<And>x s'. m s = (Inr x, s') \<Longrightarrow> isl (fst (f x s')) \<and> sent (snd (f x s')) = sent s'"
  shows "isl (fst (bnd m f s)) \<and> sent (snd (bnd m f s)) = sent s"
proof (cases "m s")
  case (Pair r s')
  show ?thesis
  proof (cases r)
    case (Inl a)
    with Pair assms(1) show ?thesis by (simp add: bnd_def)
  next
    case (Inr x)
    with Pair assms(1) [OF Pair] assms(2) [of x s'] show ?thesis by (simp add: bnd_def)
  qed
qed

lemma bnd_lift_Inr: "bnd (lift (Inr x)) f s = f x s"
  by (simp add: bnd_def lift_def)

lemma bnd_lift_Inl: "bnd (lift (Inl e)) f s = (Inl (Exception e), s)"
  by (simp add: bnd_def lift_def)

lemma bnd_set_env: "bnd (set_env k v) f s = f () (s\<lparr>environ := (environ s)(k \<mapsto> v)\<rparr>)"
  by (simp add: bnd_def set_env_def)

lemma bnd_print_msg:
  "bnd (print_msg l m a) f s = f () (s\<lparr>printed := printed s @ [(l, m, a)]\<rparr>)"
  by (simp add: bnd_def print_msg_def)

lemma bnd_ret_apply: "bnd (ret x) f s = f x s"
  by (simp add: bnd_def ret_def)

lemma bnd_raise: "bnd (raise r) f s = (Inl r, s)"
  by (simp add: bnd_def raise_def)

lemmas bnd_simps = bnd_lift_Inr bnd_lift_Inl bnd_set_env bnd_print_msg bnd_ret_apply bnd_raise

lemma create_silence_bad:
  assumes "bad_headers (environ s)"
  shows "isl (fst (create_silence w g u a s)) \<and> sent (snd (create_silence w g u a s)) = sent s"
proof -
  obtain st where st: "time_in_rfc3339 w (utcnow w (sent s)) None = Inr st"
    by (simp add: time_in_rfc3339_def)
  show ?thesis
  proof (cases "time_in_rfc3339 w (utcnow w (sent s)) (Some (silence_duration g))")
    case (Inl e)
    with st show ?thesis by (simp add: create_silence_def Let_def bnd_simps)
  next
    case (Inr en)
    let ?s4 = "s\<lparr>environ := (environ s)(''SILENCE_STARTS_AT'' \<mapsto> st, ''SILENCE_ENDS_AT'' \<mapsto> en)\<rparr>"
    have "bad_headers (environ ?s4)" using assms by (simp add: bad_headers_upd)
    from make_request_bad_aborts [OF this, of w g "u @ ''/api/v2/silences''" "''POST''" "Some a"]
    have "isl (fst (bnd (make_request w g (u @ ''/api/v2/silences'') ''POST'' (Some a))
                        (created_response w) ?s4))
          \<and> sent (snd (bnd (make_request w g (u @ ''/api/v2/silences'') ''POST'' (Some a))
                        (created_response w) ?s4)) = sent s"
      using bnd_aborts [of "make_request w g (u @ ''/api/v2/silences'') ''POST'' (Some a)" ?s4
          "created_response w"]
      by simp
    with st Inr show ?thesis
      by (simp add: create_silence_def Let_def bnd_simps)
  qed
qed

lemma load_required_matchers_frame:
  assumes "load_required_matchers w g s = (res, s')"
  shows "environ s' = environ s \<and> sent s' = sent s \<and> request_headers s' = request_headers s"
proof (cases "strict_match g")
  case False
  with assms show ?thesis by (simp add: load_required_matchers_def ret_def)
next
  case True
  let ?t = "from_env (environ s) ''PLUGIN_TEMPLATE'' ''default'' @ ''/_matchers''"
  obtain r1 s1 where 1: "render_template w g ?t s = (r1, s1)"
    by (cases "render_template w g ?t s")
  with render_template_frame [of w g ?t s]
  have f: "environ s1 = environ s" "sent s1 = sent s" "request_headers s1 = request_headers s"
    by simp_all
  from assms True 1 have "s' = s1"
    by (cases r1) (auto simp: load_required_matchers_def bnd_def raise_def ret_def
        split: option.splits)
  with f show ?thesis by simp
qed

lemma find_silences_bad:
  assumes "bad_headers (environ s)"
  shows "isl (fst (find_silences w g b s)) \<and> sent (snd (find_silences w g b s)) = sent s"
  unfolding find_silences_def Let_def
proof (rule bnd_aborts_later)
  fix r s' assume "load_required_matchers w g s = (r, s')"
  from load_required_matchers_frame [OF this] show "sent s' = sent s" by simp
next
  fix m s' assume l: "load_required_matchers w g s = (Inr m, s')"
  let ?s1 = "s'\<lparr>printed := printed s' @
      [(''NOTICE'', ''Searching for non-expired silences (strict_match={0})'',
        [AStr (if strict_match g then ''true'' else ''false'')])]\<rparr>"
  let ?mk = "make_request w g (b @ ''/api/v2/silences'') ''GET'' None"
  let ?k = "search_response w (strict_match g) silence_author (silence_comment (environ s)) m"
  from load_required_matchers_frame [OF l] assms
  have b: "bad_headers (environ ?s1)"
    by simp
  have "isl (fst (?mk ?s1)) \<and> sent (snd (?mk ?s1)) = sent ?s1"
    by (rule make_request_bad_aborts [OF b])
  then have "isl (fst (bnd ?mk ?k ?s1)) \<and> sent (snd (bnd ?mk ?k ?s1)) = sent ?s1"
    by (rule bnd_aborts)
  then show "isl (fst (bnd (search_notice g) (\<lambda>_. bnd ?mk ?k) s'))
      \<and> sent (snd (bnd (search_notice g) (\<lambda>_. bnd ?mk ?k) s')) = sent s'"
    by (simp add: search_notice_def bnd_print_msg)
qed

lemma delete_silences_bad:
  assumes "bad_headers (environ s)"
  shows "isl (fst (delete_silences w g u a s)) \<and> sent (snd (delete_silences w g u a s)) = sent s"
  unfolding delete_silences_def
  by (rule bnd_aborts) (rule find_silences_bad [OF assms])

lemma targets_loop_bad:
  assumes "bad_headers (environ s)" and "a = ''create'' \<or> a = ''delete''"
  shows "isl (fst (targets_loop w g a (u # us) s))
         \<and> sent (snd (targets_loop w g a (u # us) s)) = sent s"
proof (cases "a = ''create''")
  case True
  let ?k = "\<lambda>_::unit. bnd (if a = ''delete'' then delete_silences w g u a else ret ())
                        (\<lambda>_. targets_loop w g a us)"
  have "isl (fst (create_silence w g u a s)) \<and> sent (snd (create_silence w g u a s)) = sent s"
    by (rule create_silence_bad [OF assms(1)])
  then have "isl (fst (bnd (create_silence w g u a) ?k s))
      \<and> sent (snd (bnd (create_silence w g u a) ?k s)) = sent s"
    by (rule bnd_aborts)
  with True show ?thesis by simp
next
  case False
  with assms(2) have a: "a = ''delete''" by simp
  let ?k = "\<lambda>_::unit. targets_loop w g a us"
  have "isl (fst (delete_silences w g u a s)) \<and> sent (snd (delete_silences w g u a s)) = sent s"
    by (rule delete_silences_bad [OF assms(1)])
  then have "isl (fst (bnd (delete_silences w g u a) ?k s))
      \<and> sent (snd (bnd (delete_silences w g u a) ?k s)) = sent s"
    by (rule bnd_aborts)
  with a show ?thesis by (simp add: bnd_ret_apply)
qed

lemma perform_action_bad:
  assumes "bad_headers (environ s)" and "a = ''create'' \<or> a = ''delete''"
  shows "isl (fst (perform_action w g a s)) \<and> sent (snd (perform_action w g a s)) = sent s"
proof -
  let ?s2 = "s\<lparr>environ := (environ s)(''SILENCE_COMMENT'' \<mapsto> silence_comment (environ s),
                                       ''SILENCE_CREATED_BY'' \<mapsto> silence_author)\<rparr>"
  have b: "bad_headers (environ ?s2)" using assms(1) by (simp add: bad_headers_upd)
  obtain u us where us: "py_split (CHR '','') (from_env (environ ?s2) ''PLUGIN_URLS'' []) = u # us"
    using py_split_not_Nil by (meson neq_Nil_conv)
  have pa: "perform_action w g a s =
      targets_loop w g a (py_split (CHR '','') (from_env (environ ?s2) ''PLUGIN_URLS'' [])) ?s2"
    by (simp add: perform_action_def bnd_def set_env_def del: targets_loop.simps)
  have "sent ?s2 = sent s" by simp
  with targets_loop_bad [OF b assms(2), of w g u us] show ?thesis
    by (simp only: pa us)
qed

text \<open>
  Claim C10. When \<open>PLUGIN_HEADERS\<close> holds an entry with no colon or with more than one
  (a value that is a URL, say), the assignment \<^verbatim>\<open>k, v = header_string.split(':')\<close> raises
  \<^verbatim>\<open>ValueError\<close>, nothing catches it, and the run ends before any request is sent.
\<close>

theorem bad_header_entry_aborts:
  assumes "in_env (environ s) ''PLUGIN_HEADERS''"
    and "h \<in> set (py_split (CHR '','') (from_env (environ s) ''PLUGIN_HEADERS'' []))"
    and "count_list h (CHR '':'') \<noteq> 1"
  shows "parse_headers s = (Inl (Exception ValueError), s)
         \<and> (\<exists>e s'. make_request w g u m t s = (Inl (Exception e), s') \<and> sent s' = sent s)
         \<and> (a = ''create'' \<or> a = ''delete'' \<longrightarrow>
              isl (fst (perform_action w g a s)) \<and> sent (snd (perform_action w g a s)) = sent s)"
proof -
  from assms have b: "bad_headers (environ s)"
    by (auto simp: bad_headers_def list_ex_iff)
  from parse_headers_bad [OF b] make_request_bad_headers [OF b, of w g u m t]
    perform_action_bad [OF b, of a w g]
  show ?thesis by blast
qed

theorem bad_header_entry_witness:
  "in_env (environ (initial_state colon_env)) ''PLUGIN_HEADERS''
   \<and> ''X-Origin:http://ci''
       \<in> set (py_split (CHR '','') (from_env (environ (initial_state colon_env)) ''PLUGIN_HEADERS'' []))
   \<and> count_list ''X-Origin:http://ci'' (CHR '':'') = 2
   \<and> parse_headers (initial_state colon_env) = (Inl (Exception ValueError), initial_state colon_env)
   \<and> isl (fst (perform_action (example_world server_ok) (example_settings ''push'') ''delete''
                 (initial_state colon_env)))
   \<and> sent (snd (perform_action (example_world server_ok) (example_settings ''push'') ''delete''
                 (initial_state colon_env))) = []"
proof -
  have e: "environ (initial_state colon_env) = colon_env" "sent (initial_state colon_env) = []"
    by (simp_all add: initial_state_def)
  have 1: "in_env colon_env ''PLUGIN_HEADERS''"
    by (simp add: in_env_def from_env_def colon_env_def)
  have 2: "''X-Origin:http://ci''
       \<in> set (py_split (CHR '','') (from_env colon_env ''PLUGIN_HEADERS'' []))"
    by (simp add: from_env_def colon_env_def)
  have 3: "count_list ''X-Origin:http://ci'' (CHR '':'') = 2"
    by simp
  from bad_header_entry_aborts [of "initial_state colon_env" "''X-Origin:http://ci''"
      "example_world server_ok" "example_settings ''push''" "''http://am1''" "''GET''" None
      "''delete''"] 1 2 3
  show ?thesis by (simp add: e)
qed

section \<open>The request headers\<close>









section \<open>The search\<close>

lemma py_eq_JStr: "py_eq x (JStr a) \<longleftrightarrow> x = JStr a"
  by (cases x) auto





lemma silences_loop_frame:
  "environ (snd (silences_loop strict a c m ts ids s)) = environ s
   \<and> sent (snd (silences_loop strict a c m ts ids s)) = sent s
   \<and> request_headers (snd (silences_loop strict a c m ts ids s)) = request_headers s"
  by (induction ts arbitrary: ids s) (auto simp: print_msg_def split: sum.splits option.splits)

text \<open>
  An entry on which a subscript raises ends the loop; any other entry is appended when
  it is selected and skipped when it is not.
\<close>

lemma match_silence_entry:
  "(entry_raises strict a c m t \<longrightarrow> isl (match_silence strict a c m t))
   \<and> (\<not> entry_raises strict a c m t \<longrightarrow>
        match_silence strict a c m t =
          Inr (if selected strict a c m t then Some (field t ''id'') else None))"
  by (cases "py_getitem t ''status''"; cases "py_getitem (field t ''status'') ''state''";
      cases "py_getitem t ''createdBy''"; cases "py_getitem t ''comment''";
      cases "py_getitem t ''matchers''"; cases "py_getitem m ''matchers''";
      cases "py_getitem t ''id''";
      simp add: entry_raises_def match_silence_def ebind_def selected_def py_eq_JStr field_def)

lemma silences_loop_result:
  "snd (fst (silences_loop strict a c m ts ids s)) =
     ids @ map (\<lambda>t. field t ''id'')
             (filter (selected strict a c m)
                (takeWhile (\<lambda>t. \<not> entry_raises strict a c m t) ts))
   \<and> (fst (fst (silences_loop strict a c m ts ids s)) = None
        \<longleftrightarrow> \<not> list_ex (entry_raises strict a c m) ts)"
proof (induction ts arbitrary: ids s)
  case Nil
  show ?case by simp
next
  case (Cons t ts)
  show ?case
  proof (cases "entry_raises strict a c m t")
    case True
    with match_silence_entry [of strict a c m t]
    obtain e where "match_silence strict a c m t = Inl e"
      by (cases "match_silence strict a c m t") auto
    with True show ?thesis by simp
  next
    case False
    with match_silence_entry [of strict a c m t]
    have m: "match_silence strict a c m t =
          Inr (if selected strict a c m t then Some (field t ''id'') else None)" by simp
    show ?thesis
    proof (cases "selected strict a c m t")
      case s: False
      with m False Cons.IH [of ids s] show ?thesis by simp
    next
      case s: True
      with m False
        Cons.IH [of "ids @ [field t ''id'']"
          "snd (print_msg ''DEBUG'' ''Found matching silence with ID {0}''
                  [AJson (field t ''id'')] s)"]
      show ?thesis by simp
    qed
  qed
qed

text \<open>
  The \<^verbatim>\<open>try\<close> block returns the identifiers found before the failure, and a failure
  leaves an error as the last message printed.
\<close>

lemma collect_silences_result:
  "fst (collect_silences w strict a c m content s)
     = Inr (found_before_failure w strict a c m content)
   \<and> (search_fails w strict a c m content \<longrightarrow>
        fst (last (printed (snd (collect_silences w strict a c m content s)))) = ''ERROR'')"
proof -
  obtain j s1 where d: "decode_and_parse_json w content s = (Inr j, s1)"
    and j: "j = (case json_loads w content of None \<Rightarrow> JList [] | Some x \<Rightarrow> x)"
    and p: "json_loads w content = None \<longrightarrow> fst (last (printed s1)) = ''ERROR''"
    by (cases "json_loads w content")
       (auto simp: decode_and_parse_json_def bnd_def print_msg_def ret_def)
  show ?thesis
  proof (cases "py_iter j")
    case (Inl e)
    with j obtain x where x: "json_loads w content = Some x" "py_iter x = Inl e"
      by (cases "json_loads w content") (auto simp: py_iter_def)
    from d Inl have "collect_silences w strict a c m content s
        = (Inr [], s1\<lparr>printed := printed s1 @
             [(''ERROR'', ''Searching for silence failed with an error:\<newline>{0}'',
               [AExn e])]\<rparr>)"
      by (simp add: collect_silences_def bnd_def print_msg_def ret_def)
    with x show ?thesis
      by (simp add: found_before_failure_def decoded_entries_def)
  next
    case (Inr entries)
    with j have e: "decoded_entries w content = entries"
      by (cases "json_loads w content") (auto simp: decoded_entries_def py_iter_def)
    from j Inr have f: "search_fails w strict a c m content
        \<longleftrightarrow> json_loads w content = None \<or> list_ex (entry_raises strict a c m) entries"
      by (cases "json_loads w content") (auto simp: search_fails_def)
    from j Inr have n: "json_loads w content = None \<longrightarrow> entries = []"
      by (auto simp: py_iter_def)
    obtain eo ids s2 where l: "silences_loop strict a c m entries [] s1 = ((eo, ids), s2)"
      by (cases "silences_loop strict a c m entries [] s1") auto
    with silences_loop_result [of strict a c m entries "[]" s1]
    have i: "ids = map (\<lambda>t. field t ''id'')
          (filter (selected strict a c m)
            (takeWhile (\<lambda>t. \<not> entry_raises strict a c m t) entries))"
      and o: "eo = None \<longleftrightarrow> \<not> list_ex (entry_raises strict a c m) entries"
      by simp_all
    show ?thesis
    proof (cases eo)
      case None
      with d Inr l have c: "collect_silences w strict a c m content s = (Inr ids, s2)"
        by (simp add: collect_silences_def bnd_def ret_def)
      have "fst (last (printed s2)) = ''ERROR''" if "search_fails w strict a c m content"
      proof -
        from that f o None have "json_loads w content = None" by simp
        with n p l show ?thesis by simp
      qed
      with c i e show ?thesis by (simp add: found_before_failure_def)
    next
      case (Some ex)
      with d Inr l have "collect_silences w strict a c m content s
          = (Inr ids, s2\<lparr>printed := printed s2 @
               [(''ERROR'', ''Searching for silence failed with an error:\<newline>{0}'',
                 [AExn ex])]\<rparr>)"
        by (simp add: collect_silences_def bnd_def print_msg_def ret_def)
      with i e show ?thesis by (simp add: found_before_failure_def)
    qed
  qed
qed

text \<open>The \<^verbatim>\<open>try\<close> block never raises, whatever the response holds.\<close>

lemma collect_silences_total:
  "\<exists>ids s'. collect_silences w strict a c m content s = (Inr ids, s')
      \<and> environ s' = environ s \<and> sent s' = sent s \<and> request_headers s' = request_headers s"
proof -
  obtain j s1 where d: "decode_and_parse_json w content s = (Inr j, s1)"
    "environ s1 = environ s" "sent s1 = sent s" "request_headers s1 = request_headers s"
    by (cases "json_loads w content") (auto simp: decode_and_parse_json_def bnd_simps ret_def)
  show ?thesis
  proof (cases "py_iter j")
    case (Inl e)
    with d show ?thesis by (simp add: collect_silences_def bnd_def print_msg_def ret_def)
  next
    case (Inr entries)
    obtain eo ids s2 where l: "silences_loop strict a c m entries [] s1 = ((eo, ids), s2)"
      by (cases "silences_loop strict a c m entries [] s1") auto
    with silences_loop_frame [of strict a c m entries "[]" s1]
    have f: "environ s2 = environ s1" "sent s2 = sent s1" "request_headers s2 = request_headers s1"
      by simp_all
    from d Inr l f show ?thesis
      by (cases eo) (simp_all add: collect_silences_def bnd_def print_msg_def ret_def)
  qed
qed






section \<open>Outcomes of a request\<close>

lemma send_request_rejected:
  assumes "http w (sent s) r = Returns resp content" and "status resp \<noteq> 200"
  shows "\<exists>s'. send_request w g r s = (Inl (SystemExit 1), s') \<and> sent s' = sent s @ [r]
            \<and> environ s' = environ s \<and> fst (last (printed s')) = ''ERROR''"
  using assms by (simp add: send_request_def Let_def prog_defs)

lemma send_request_accepted:
  assumes "http w (sent s) r = Returns resp content" and "status resp = 200"
  shows "\<exists>s'. send_request w g r s = (Inr (Some (resp, content)), s') \<and> sent s' = sent s @ [r]
            \<and> environ s' = environ s"
  using assms by (simp add: send_request_def Let_def prog_defs)

lemma send_request_failed:
  assumes "http w (sent s) r = Raises e"
  shows "\<exists>s'. send_request w g r s = (Inr None, s') \<and> sent s' = sent s @ [r]
            \<and> environ s' = environ s \<and> fst (last (printed s')) = ''ERROR''"
  using assms by (simp add: send_request_def Let_def prog_defs)

lemma find_silences_request:
  assumes "load_required_matchers w g s0 = (Inr m, sl)"
    and "search_notice g sl = (Inr (), sn)"
    and "prepare_request w g (b @ ''/api/v2/silences'') ''GET'' None sn = (Inr r, sp)"
  shows "find_silences w g b s0 =
           bnd (send_request w g r)
               (search_response w (strict_match g) silence_author (silence_comment (environ s0)) m)
               sp"
  using assms by (simp add: find_silences_def Let_def make_request_prepare bnd_def)

lemma search_response_warning:
  assumes "header resp ''content-type'' = Some ct" and "ct \<noteq> ''application/json''"
  shows "search_response w strict a c m (Some (resp, content)) s =
           (Inr None,
            s\<lparr>printed := printed s @
               [(''WARNING'',
                 ''Got \"{0}\" as Content-Type type instead of expected \"application/json\"'',
                 [AStr ct])]\<rparr>)"
  using assms by (simp add: search_response_def bnd_simps ret_def)

lemma search_response_result:
  assumes "header resp ''content-type'' = Some ''application/json''"
  shows "fst (search_response w strict a c m (Some (resp, content)) s)
           = Inr (Some (found_before_failure w strict a c m content))
         \<and> (search_fails w strict a c m content \<longrightarrow>
              fst (last (printed (snd (search_response w strict a c m (Some (resp, content)) s))))
                = ''ERROR'')"
proof -
  obtain r s' where k: "collect_silences w strict a c m content s = (r, s')"
    by (cases "collect_silences w strict a c m content s")
  with collect_silences_result [of w strict a c m content s]
  have "r = Inr (found_before_failure w strict a c m content)"
    "search_fails w strict a c m content \<longrightarrow> fst (last (printed s')) = ''ERROR''"
    by simp_all
  with k assms show ?thesis by (simp add: search_response_def bnd_def ret_def)
qed

lemma search_response_no_type:
  assumes "header resp ''content-type'' = None"
  shows "fst (search_response w strict a c m (Some (resp, content)) s)
           = Inl (Exception (KeyError ''content-type''))"
  using assms by (simp add: search_response_def raise_def)

text \<open>
  Claim C2, as amended. What the search does with the answer of the backend to its
  \<^verbatim>\<open>GET\<close>. A status other than 200 is fatal: the error is printed and the process exits
  with status 1. With status 200, a content type other than \<open>application/json\<close> prints a
  warning and returns no identifiers (\<^verbatim>\<open>None\<close>), and an answer without a content type
  raises \<^verbatim>\<open>KeyError\<close>, which nothing catches. With status 200 and \<open>application/json\<close> the
  search returns a list and never raises: the identifiers of the selected entries that
  come before the first entry on which a subscript raises, none when the body does not
  decode or the decoded value cannot be iterated; and whenever decoding, iterating or
  an entry fails, the last message printed is an error.
\<close>

theorem find_silences_failures:
  assumes "load_required_matchers w g s0 = (Inr m, sl)"
    and "search_notice g sl = (Inr (), sn)"
    and "prepare_request w g (b @ ''/api/v2/silences'') ''GET'' None sn = (Inr r, sp)"
    and "http w (sent sp) r = Returns resp content"
  shows "(status resp \<noteq> 200 \<longrightarrow>
            fst (find_silences w g b s0) = Inl (SystemExit 1)
            \<and> fst (last (printed (snd (find_silences w g b s0)))) = ''ERROR'')
         \<and> (status resp = 200 \<and> header resp ''content-type'' = Some ct
              \<and> ct \<noteq> ''application/json'' \<longrightarrow>
            fst (find_silences w g b s0) = Inr None
            \<and> fst (last (printed (snd (find_silences w g b s0)))) = ''WARNING'')
         \<and> (status resp = 200 \<and> header resp ''content-type'' = None \<longrightarrow>
            fst (find_silences w g b s0) = Inl (Exception (KeyError ''content-type'')))
         \<and> (status resp = 200 \<and> header resp ''content-type'' = Some ''application/json'' \<longrightarrow>
            fst (find_silences w g b s0) =
              Inr (Some (found_before_failure w (strict_match g) silence_author
                           (silence_comment (environ s0)) m content))
            \<and> (search_fails w (strict_match g) silence_author
                  (silence_comment (environ s0)) m content \<longrightarrow>
                fst (last (printed (snd (find_silences w g b s0)))) = ''ERROR''))"
proof -
  note f = find_silences_request [OF assms(1) assms(2) assms(3)]
  have 1: "fst (find_silences w g b s0) = Inl (SystemExit 1)
            \<and> fst (last (printed (snd (find_silences w g b s0)))) = ''ERROR''"
    if "status resp \<noteq> 200"
    using send_request_rejected [OF assms(4) that, of g] by (auto simp: f bnd_def)
  have 2: "fst (find_silences w g b s0) = Inr None
            \<and> fst (last (printed (snd (find_silences w g b s0)))) = ''WARNING''"
    if "status resp = 200" "header resp ''content-type'' = Some ct" "ct \<noteq> ''application/json''"
    using send_request_accepted [OF assms(4) that(1), of g]
      search_response_warning [OF that(2) that(3)]
    by (auto simp: f bnd_def)
  have 3: "fst (find_silences w g b s0) = Inl (Exception (KeyError ''content-type''))"
    if "status resp = 200" "header resp ''content-type'' = None"
  proof -
    from send_request_accepted [OF assms(4) that(1), of g]
    obtain s' where s: "send_request w g r sp = (Inr (Some (resp, content)), s')" by blast
    from search_response_no_type [OF that(2), of w "strict_match g" silence_author
        "silence_comment (environ s0)" m content s'] s
    show ?thesis by (simp add: f bnd_def)
  qed
  have 4: "fst (find_silences w g b s0) =
              Inr (Some (found_before_failure w (strict_match g) silence_author
                           (silence_comment (environ s0)) m content))
            \<and> (search_fails w (strict_match g) silence_author
                  (silence_comment (environ s0)) m content \<longrightarrow>
                fst (last (printed (snd (find_silences w g b s0)))) = ''ERROR'')"
    if "status resp = 200" "header resp ''content-type'' = Some ''application/json''"
  proof -
    from send_request_accepted [OF assms(4) that(1), of g]
    obtain s' where s: "send_request w g r sp = (Inr (Some (resp, content)), s')" by blast
    from search_response_result [OF that(2), of w "strict_match g" silence_author
        "silence_comment (environ s0)" m content s'] s
    show ?thesis by (simp add: f bnd_def)
  qed
  from 1 2 3 4 show ?thesis by blast
qed

lemma example_env_ready: "request_ready example_env"
  by (simp add: request_ready_def duration_ok_def in_env_def from_env_def example_env_def
        timestamp_diff_def py_int_examples timedelta_overflow_def timedelta_days_def)

lemma example_search_prepared:
  "\<exists>r sp. prepare_request (example_world server) (example_settings ''push'')
             (''http://am1'' @ ''/api/v2/silences'') ''GET'' None
             (snd (search_notice (example_settings ''push'') (initial_state example_env)))
           = (Inr r, sp)"
proof -
  have "request_ready (environ (snd (search_notice (example_settings ''push'')
          (initial_state example_env))))"
    using example_env_ready by (simp add: search_notice_def print_msg_def initial_state_def)
  from prepare_request_ok [OF this, of None] show ?thesis by blast
qed

lemma example_partial:
  "found_before_failure (example_world server) False ''drone/alertmanager'' example_comment
     JNull ''PARTIAL'' = [JStr ''a1'']"
  "search_fails (example_world server) False ''drone/alertmanager'' example_comment
     JNull ''PARTIAL''"
  by (simp_all add: found_before_failure_def search_fails_def decoded_entries_def
        entry_raises_def selected_def field_def py_getitem_def py_iter_def example_world_def
        example_json_loads_def partial_silences_def example_silence_def example_comment_def)

theorem find_silences_failures_witness:
  "fst (find_silences (example_world server_unavailable) (example_settings ''push'')
          ''http://am1'' (initial_state example_env)) = Inl (SystemExit 1)
   \<and> fst (find_silences (example_world server_html) (example_settings ''push'')
          ''http://am1'' (initial_state example_env)) = Inr None
   \<and> fst (find_silences (example_world server_untyped) (example_settings ''push'')
          ''http://am1'' (initial_state example_env))
       = Inl (Exception (KeyError ''content-type''))
   \<and> fst (find_silences (example_world server_partial) (example_settings ''push'')
          ''http://am1'' (initial_state example_env)) = Inr (Some [JStr ''a1''])
   \<and> fst (last (printed (snd (find_silences (example_world server_partial)
          (example_settings ''push'') ''http://am1'' (initial_state example_env))))) = ''ERROR''"
proof -
  let ?g = "example_settings ''push''"
  let ?s = "initial_state example_env"
  have l: "load_required_matchers (example_world server) ?g ?s = (Inr JNull, ?s)" for server
    by (simp add: load_required_matchers_def example_settings_def ret_def)
  have n: "search_notice ?g ?s = (Inr (), snd (search_notice ?g ?s))"
    by (simp add: search_notice_def print_msg_def)
  have g: "strict_match ?g = False" by (simp add: example_settings_def)
  have c: "silence_comment (environ ?s) = example_comment"
    by (simp add: silence_comment_def from_env_def initial_state_def example_env_def
          example_comment_def)
  have 1: "fst (find_silences (example_world server_unavailable) ?g ''http://am1'' ?s)
             = Inl (SystemExit 1)"
  proof -
    from example_search_prepared [of server_unavailable] obtain r sp where
      p: "prepare_request (example_world server_unavailable) ?g
            (''http://am1'' @ ''/api/v2/silences'') ''GET'' None (snd (search_notice ?g ?s))
          = (Inr r, sp)" by blast
    have h: "http (example_world server_unavailable) (sent sp) r
          = Returns \<lparr> status = 503, header = [''content-type'' \<mapsto> ''text/plain''] \<rparr>
              ''Service Unavailable''"
      by (simp add: example_world_def server_unavailable_def json_response_def)
    from find_silences_failures [OF l n p h] show ?thesis by simp
  qed
  have 2: "fst (find_silences (example_world server_html) ?g ''http://am1'' ?s) = Inr None"
  proof -
    from example_search_prepared [of server_html] obtain r sp where
      p: "prepare_request (example_world server_html) ?g
            (''http://am1'' @ ''/api/v2/silences'') ''GET'' None (snd (search_notice ?g ?s))
          = (Inr r, sp)" by blast
    have h: "http (example_world server_html) (sent sp) r
          = Returns \<lparr> status = 200, header = [''content-type'' \<mapsto> ''text/html''] \<rparr>
              ''<html>Sign in</html>''"
      by (simp add: example_world_def server_html_def json_response_def)
    from find_silences_failures [OF l n p h, of "''text/html''"] show ?thesis by simp
  qed
  have 3: "fst (find_silences (example_world server_untyped) ?g ''http://am1'' ?s)
             = Inl (Exception (KeyError ''content-type''))"
  proof -
    from example_search_prepared [of server_untyped] obtain r sp where
      p: "prepare_request (example_world server_untyped) ?g
            (''http://am1'' @ ''/api/v2/silences'') ''GET'' None (snd (search_notice ?g ?s))
          = (Inr r, sp)" by blast
    have h: "http (example_world server_untyped) (sent sp) r
          = Returns \<lparr> status = 200, header = Map.empty \<rparr> []"
      by (simp add: example_world_def server_untyped_def)
    from find_silences_failures [OF l n p h] show ?thesis by simp
  qed
  have 4: "fst (find_silences (example_world server_partial) ?g ''http://am1'' ?s)
             = Inr (Some [JStr ''a1''])
           \<and> fst (last (printed (snd (find_silences (example_world server_partial) ?g
                ''http://am1'' ?s)))) = ''ERROR''"
  proof -
    from example_search_prepared [of server_partial] obtain r sp where
      p: "prepare_request (example_world server_partial) ?g
            (''http://am1'' @ ''/api/v2/silences'') ''GET'' None (snd (search_notice ?g ?s))
          = (Inr r, sp)"
      and "request_method r = ''GET''"
      using prepare_request_ok [of "snd (search_notice ?g ?s)" None
          "example_world server_partial" ?g "''http://am1'' @ ''/api/v2/silences''" "''GET''"]
        example_env_ready
      by (auto simp: search_notice_def print_msg_def initial_state_def)
    then have h: "http (example_world server_partial) (sent sp) r
          = Returns \<lparr> status = 200, header = [''content-type'' \<mapsto> ''application/json''] \<rparr>
              ''PARTIAL''"
      by (simp add: example_world_def server_partial_def json_response_def)
    from find_silences_failures [OF l n p h] show ?thesis
      by (simp add: g c silence_author_def example_partial)
  qed
  from 1 2 3 4 show ?thesis by blast
qed

text \<open>
  The claim as stated fails in three ways. When the backend answers the search with a
  status other than 200, \<open>make_request\<close> exits the process, for the search as for every
  other request. When the answer carries no content type, the search raises. And when
  an entry of the list fails, the identifiers found before it are returned and, in a
  \<open>delete\<close> run, deleted: the failure is not treated as no matches found.
\<close>

theorem find_silences_exit_counterexample:
  "fst (find_silences (example_world server_unavailable) (example_settings ''push'')
          ''http://am1'' (initial_state example_env)) = Inl (SystemExit 1)
   \<and> fst (perform_action (example_world server_unavailable) (example_settings ''push'')
          ''delete'' (initial_state example_env)) = Inl (SystemExit 1)
   \<and> fst (find_silences (example_world server_untyped) (example_settings ''push'')
          ''http://am1'' (initial_state example_env))
       = Inl (Exception (KeyError ''content-type''))
   \<and> fst (find_silences (example_world server_partial) (example_settings ''push'')
          ''http://am1'' (initial_state example_env)) = Inr (Some [JStr ''a1''])
   \<and> map (\<lambda>r. (request_method r, uri r))
        (sent (snd (perform_action (example_world server_partial) (example_settings ''push'')
          ''delete'' (initial_state example_env))))
       = [(''GET'', ''http://am1/api/v2/silences''),
          (''DELETE'', ''http://am1/api/v2/silence/a1''),
          (''GET'', ''http://am2/api/v2/silences''),
          (''DELETE'', ''http://am2/api/v2/silence/a1'')]"
  by code_simp

section \<open>The response to a create\<close>

lemma created_response_warning:
  assumes "header resp ''content-type'' = Some ct" and "ct \<noteq> ''application/json''"
  shows "created_response w (Some (resp, content)) s =
           (Inr (),
            s\<lparr>printed := printed s @
               [(''WARNING'',
                 ''Got \"{0}\" as Content-Type type instead of expected \"application/json\"'',
                 [AStr ct])]\<rparr>)"
  using assms by (simp add: created_response_def print_msg_def)

lemma create_silence_request:
  assumes "time_in_rfc3339 w (utcnow w (sent s)) (Some (silence_duration g)) = Inr ends"
  shows "create_silence w g u a s =
           bnd (make_request w g (u @ ''/api/v2/silences'') ''POST'' (Some a))
               (created_response w)
               (s\<lparr>environ := (environ s)
                   (''SILENCE_STARTS_AT'' \<mapsto> isoformat w (utcnow w (sent s)) @ ''Z'',
                    ''SILENCE_ENDS_AT'' \<mapsto> ends)\<rparr>)"
  using assms by (simp add: create_silence_def Let_def bnd_simps time_in_rfc3339_def)

text \<open>
  Claim C3, as amended. On the create path a response with status 200 whose content
  type is not \<open>application/json\<close> is not fatal: a warning is printed, no identifier is
  read from the body, and the run goes on (\<open>create_silence\<close> returns normally). The
  same condition during the search is a warning too, and the search returns no
  identifiers.
\<close>

theorem content_type_warning:
  assumes "header resp ''content-type'' = Some ct" and "ct \<noteq> ''application/json''"
  shows "created_response w (Some (resp, content)) s =
           (Inr (),
            s\<lparr>printed := printed s @
               [(''WARNING'',
                 ''Got \"{0}\" as Content-Type type instead of expected \"application/json\"'',
                 [AStr ct])]\<rparr>)
         \<and> search_response w strict a c m (Some (resp, content)) s =
           (Inr None,
            s\<lparr>printed := printed s @
               [(''WARNING'',
                 ''Got \"{0}\" as Content-Type type instead of expected \"application/json\"'',
                 [AStr ct])]\<rparr>)
         \<and> (\<forall>g u act s0 ends.
               time_in_rfc3339 w (utcnow w (sent s0)) (Some (silence_duration g)) = Inr ends
               \<and> make_request w g (u @ ''/api/v2/silences'') ''POST'' (Some act)
                    (s0\<lparr>environ := (environ s0)
                        (''SILENCE_STARTS_AT'' \<mapsto> isoformat w (utcnow w (sent s0)) @ ''Z'',
                         ''SILENCE_ENDS_AT'' \<mapsto> ends)\<rparr>)
                  = (Inr (Some (resp, content)), s)
             \<longrightarrow> fst (create_silence w g u act s0) = Inr ()
                 \<and> fst (last (printed (snd (create_silence w g u act s0)))) = ''WARNING'')"
proof -
  note c = created_response_warning [OF assms, of w content s]
  have "fst (create_silence w g u act s0) = Inr ()
        \<and> fst (last (printed (snd (create_silence w g u act s0)))) = ''WARNING''"
    if "time_in_rfc3339 w (utcnow w (sent s0)) (Some (silence_duration g)) = Inr ends"
      and "make_request w g (u @ ''/api/v2/silences'') ''POST'' (Some act)
                    (s0\<lparr>environ := (environ s0)
                        (''SILENCE_STARTS_AT'' \<mapsto> isoformat w (utcnow w (sent s0)) @ ''Z'',
                         ''SILENCE_ENDS_AT'' \<mapsto> ends)\<rparr>)
                  = (Inr (Some (resp, content)), s)"
    for g u act s0 ends
    using that c by (simp add: create_silence_request bnd_def)
  with c search_response_warning [OF assms, of w strict a c m content s]
  show ?thesis by blast
qed

theorem content_type_warning_witness:
  "header html_response ''content-type'' = Some ''text/html''
   \<and> ''text/html'' \<noteq> ''application/json''
   \<and> fst (created_response (example_world server_html)
             (Some (html_response, ''<html>Sign in</html>'')) (initial_state example_env))
       = Inr ()
   \<and> fst (search_response (example_world server_html) False silence_author example_comment
             JNull (Some (html_response, ''<html>Sign in</html>'')) (initial_state example_env))
       = Inr None"
proof -
  have h: "header html_response ''content-type'' = Some ''text/html''"
    by (simp add: html_response_def)
  have n: "''text/html'' \<noteq> ''application/json''" by simp
  from content_type_warning [OF h n, of "example_world server_html" "''<html>Sign in</html>''"
      "initial_state example_env" False silence_author example_comment JNull] h n
  show ?thesis by simp
qed

text \<open>
  The claim as stated fails on a create run whose backends answer 200 with an HTML
  page: both targets are posted to, two warnings are printed, and \<open>perform_action\<close>
  returns, after which the program exits with status 0.
\<close>

theorem create_html_counterexample:
  "fst (perform_action (example_world server_html) (example_settings ''push'') ''create''
          (initial_state example_env)) = Inr ()
   \<and> map uri (sent (snd (perform_action (example_world server_html) (example_settings ''push'')
          ''create'' (initial_state example_env))))
       = [''http://am1/api/v2/silences'', ''http://am2/api/v2/silences'']
   \<and> map fst (printed (snd (perform_action (example_world server_html)
          (example_settings ''push'') ''create'' (initial_state example_env))))
       = [''NOTICE'', ''WARNING'', ''NOTICE'', ''WARNING'']"
  by code_simp

section \<open>Failures while deleting\<close>

lemma send_request_not_rejected:
  assumes "\<not> rejected (http w (sent s) r)"
  shows "\<exists>x s'. send_request w g r s = (Inr x, s') \<and> sent s' = sent s @ [r]
            \<and> environ s' = environ s"
proof (cases "http w (sent s) r")
  case (Returns resp content)
  with assms have "status resp = 200" by (simp add: rejected_def)
  from send_request_accepted [OF Returns this, of g] show ?thesis by blast
next
  case (Raises e)
  from send_request_failed [OF Raises, of g] show ?thesis by blast
qed

lemma send_request_is_rejected:
  assumes "rejected (http w (sent s) r)"
  shows "\<exists>s'. send_request w g r s = (Inl (SystemExit 1), s') \<and> sent s' = sent s @ [r]"
proof (cases "http w (sent s) r")
  case (Returns resp content)
  with assms have "status resp \<noteq> 200" by (simp add: rejected_def)
  from send_request_rejected [OF Returns this, of g] show ?thesis by blast
next
  case (Raises e)
  with assms show ?thesis by (simp add: rejected_def)
qed

lemma delete_request:
  assumes "request_ready (environ s)"
  shows "\<exists>r sp. prepare_request w g u ''DELETE'' (Some ''delete'') s = (Inr r, sp)
           \<and> uri r = u \<and> request_method r = ''DELETE'' \<and> sent sp = sent s
           \<and> request_ready (environ sp)"
proof -
  have "Some ''delete'' \<noteq> Some ''create''" by simp
  from prepare_request_ok [OF assms this, of w g u "''DELETE''"]
  obtain r sp where p: "prepare_request w g u ''DELETE'' (Some ''delete'') s = (Inr r, sp)"
    "uri r = u" "request_method r = ''DELETE''" "sent sp = sent s"
    "\<forall>k. k \<noteq> ''DRONE_BUILD_TOTALTIME'' \<and> k \<noteq> ''DRONE_BUILD_QUEUEDTIME''
          \<longrightarrow> environ sp k = environ s k"
    by blast
  from p(5) assms have "request_ready (environ sp)"
    using request_ready_cong [of "environ sp" "environ s"] by simp
  with p show ?thesis by blast
qed

lemma delete_loop_step:
  "delete_loop w g u a (i # rest) s =
     bnd (make_request w g (delete_uri w u i) ''DELETE'' (Some a))
         (\<lambda>_. delete_loop w g u a rest)
         (s\<lparr>printed := printed s @ [(''NOTICE'', ''Deleting silence with ID {0}'', [AJson i])]\<rparr>)"
  by (simp add: bnd_print_msg delete_uri_def)

lemma delete_loop_continues:
  assumes "request_ready (environ s)"
    and "\<forall>h r. request_method r = ''DELETE'' \<and> uri r = delete_uri w u i \<longrightarrow> \<not> rejected (http w h r)"
  shows "\<exists>s'. delete_loop w g u ''delete'' (i # rest) s = delete_loop w g u ''delete'' rest s'
            \<and> map uri (sent s') = map uri (sent s) @ [delete_uri w u i]
            \<and> request_ready (environ s')"
proof -
  let ?sn = "s\<lparr>printed := printed s @ [(''NOTICE'', ''Deleting silence with ID {0}'', [AJson i])]\<rparr>"
  have "request_ready (environ ?sn)" using assms(1) by simp
  from delete_request [OF this, of w g "delete_uri w u i"]
  obtain r sp where p: "prepare_request w g (delete_uri w u i) ''DELETE'' (Some ''delete'') ?sn
      = (Inr r, sp)" "uri r = delete_uri w u i" "request_method r = ''DELETE''"
    "sent sp = sent ?sn" "request_ready (environ sp)"
    by blast
  from assms(2) p(2) p(3) have "\<not> rejected (http w (sent sp) r)" by simp
  from send_request_not_rejected [OF this, of g]
  obtain x s' where x: "send_request w g r sp = (Inr x, s')" "sent s' = sent sp @ [r]"
    "environ s' = environ sp" by blast
  have "delete_loop w g u ''delete'' (i # rest) s = delete_loop w g u ''delete'' rest s'"
    using p(1) x(1) by (simp only: delete_loop_step make_request_prepare) (simp add: bnd_def)
  with p x show ?thesis by auto
qed

lemma delete_loop_exits:
  assumes "request_ready (environ s)"
    and "\<forall>h r. request_method r = ''DELETE'' \<and> uri r = delete_uri w u i \<longrightarrow> rejected (http w h r)"
  shows "\<exists>s'. delete_loop w g u ''delete'' (i # rest) s = (Inl (SystemExit 1), s')
            \<and> map uri (sent s') = map uri (sent s) @ [delete_uri w u i]"
proof -
  let ?sn = "s\<lparr>printed := printed s @ [(''NOTICE'', ''Deleting silence with ID {0}'', [AJson i])]\<rparr>"
  have "request_ready (environ ?sn)" using assms(1) by simp
  from delete_request [OF this, of w g "delete_uri w u i"]
  obtain r sp where p: "prepare_request w g (delete_uri w u i) ''DELETE'' (Some ''delete'') ?sn
      = (Inr r, sp)" "uri r = delete_uri w u i" "request_method r = ''DELETE''"
    "sent sp = sent ?sn" "request_ready (environ sp)"
    by blast
  from assms(2) p(2) p(3) have "rejected (http w (sent sp) r)" by simp
  from send_request_is_rejected [OF this, of g]
  obtain s' where x: "send_request w g r sp = (Inl (SystemExit 1), s')" "sent s' = sent sp @ [r]"
    by blast
  have "delete_loop w g u ''delete'' (i # rest) s = (Inl (SystemExit 1), s')"
    using p(1) x(1) by (simp only: delete_loop_step make_request_prepare) (simp add: bnd_def)
  with p x show ?thesis by auto
qed

lemma delete_loop_all:
  assumes "request_ready (environ s)"
    and "\<forall>h r. request_method r = ''DELETE'' \<and> uri r \<in> set (map (delete_uri w u) ids) \<longrightarrow> \<not> rejected (http w h r)"
  shows "\<exists>s'. delete_loop w g u ''delete'' ids s = (Inr (), s')
            \<and> map uri (sent s') = map uri (sent s) @ map (delete_uri w u) ids"
  using assms
proof (induction ids arbitrary: s)
  case Nil
  then show ?case by (simp add: ret_def)
next
  case (Cons i rest)
  from Cons.prems(2) have one: "\<forall>h r. request_method r = ''DELETE'' \<and> uri r = delete_uri w u i \<longrightarrow> \<not> rejected (http w h r)"
    and others: "\<forall>h r. request_method r = ''DELETE'' \<and> uri r \<in> set (map (delete_uri w u) rest) \<longrightarrow> \<not> rejected (http w h r)"
    by simp_all
  from delete_loop_continues [OF Cons.prems(1) one, of g rest]
  obtain s1 where s1: "delete_loop w g u ''delete'' (i # rest) s = delete_loop w g u ''delete'' rest s1"
    "map uri (sent s1) = map uri (sent s) @ [delete_uri w u i]" "request_ready (environ s1)"
    by blast
  from Cons.IH [OF s1(3) others]
  obtain s' where "delete_loop w g u ''delete'' rest s1 = (Inr (), s')"
    "map uri (sent s') = map uri (sent s1) @ map (delete_uri w u) rest" by blast
  with s1 show ?case by simp
qed

text \<open>
  Claim C1, as amended. On the delete path a \<^verbatim>\<open>DELETE\<close> whose transport fails (the request
  raises) is not fatal: the error is printed and the loop goes on with the remaining
  identifiers, so that when no \<^verbatim>\<open>DELETE\<close> of the loop is answered with a status other
  than 200 every matched identifier is attempted, in order, and the loop returns. A
  \<^verbatim>\<open>DELETE\<close> answered with a status other than 200 is fatal: the process exits with
  status 1 right after that request, and the remaining identifiers are not attempted.
  (The environment is one in which the lines before the request do not raise, as it is
  after the search has sent its own request.)
\<close>

theorem delete_failures:
  assumes "request_ready (environ s)"
  shows "((\<forall>h r. request_method r = ''DELETE'' \<and> uri r \<in> set (map (delete_uri w u) ids) \<longrightarrow> \<not> rejected (http w h r)) \<longrightarrow>
            (\<exists>s'. delete_loop w g u ''delete'' ids s = (Inr (), s')
               \<and> map uri (sent s') = map uri (sent s) @ map (delete_uri w u) ids))
         \<and> ((\<forall>h r. request_method r = ''DELETE'' \<and> uri r = delete_uri w u i \<longrightarrow> (\<exists>e. http w h r = Raises e)) \<longrightarrow>
            (\<exists>s'. delete_loop w g u ''delete'' (i # rest) s = delete_loop w g u ''delete'' rest s'
               \<and> map uri (sent s') = map uri (sent s) @ [delete_uri w u i]))
         \<and> ((\<forall>h r. request_method r = ''DELETE'' \<and> uri r = delete_uri w u i \<longrightarrow> rejected (http w h r)) \<longrightarrow>
            (\<exists>s'. delete_loop w g u ''delete'' (i # rest) s = (Inl (SystemExit 1), s')
               \<and> map uri (sent s') = map uri (sent s) @ [delete_uri w u i]))"
proof -
  have 2: "\<exists>s'. delete_loop w g u ''delete'' (i # rest) s = delete_loop w g u ''delete'' rest s'
               \<and> map uri (sent s') = map uri (sent s) @ [delete_uri w u i]"
    if r: "\<forall>h r. request_method r = ''DELETE'' \<and> uri r = delete_uri w u i \<longrightarrow> (\<exists>e. http w h r = Raises e)"
  proof -
    have "\<not> rejected (http w h q)"
      if "request_method q = ''DELETE'' \<and> uri q = delete_uri w u i" for h q
    proof -
      from r that obtain e where "http w h q = Raises e" by blast
      then show ?thesis by (simp add: rejected_def)
    qed
    then have "\<forall>h r. request_method r = ''DELETE'' \<and> uri r = delete_uri w u i \<longrightarrow> \<not> rejected (http w h r)" by blast
    from delete_loop_continues [OF assms this, of g rest] show ?thesis by blast
  qed
  from delete_loop_all [OF assms, of w u ids g] 2 delete_loop_exits [OF assms, of w u i g rest]
  show ?thesis by blast
qed

theorem delete_failures_witness:
  "request_ready (environ (initial_state example_env))
   \<and> (\<exists>s'. delete_loop (example_world server_delete_unreachable) (example_settings ''push'')
              ''http://am1'' ''delete'' [JStr ''a1'', JStr ''a2'', JStr ''a3'']
              (initial_state example_env) = (Inr (), s')
          \<and> map uri (sent s') =
              [''http://am1/api/v2/silence/a1'', ''http://am1/api/v2/silence/a2'',
               ''http://am1/api/v2/silence/a3''])
   \<and> (\<exists>s'. delete_loop (example_world server_delete_rejected) (example_settings ''push'')
              ''http://am1'' ''delete'' [JStr ''a1'', JStr ''a2'', JStr ''a3'']
              (initial_state example_env) = (Inl (SystemExit 1), s')
          \<and> map uri (sent s') = [''http://am1/api/v2/silence/a1''])
   \<and> fst (perform_action (example_world server_delete_unreachable) (example_settings ''push'')
            ''delete'' (initial_state example_env)) = Inr ()"
proof -
  let ?s = "initial_state example_env"
  let ?g = "example_settings ''push''"
  have r: "request_ready (environ ?s)"
    using example_env_ready by (simp add: initial_state_def)
  have e: "sent ?s = []" by (simp add: initial_state_def)
  have u: "\<forall>h r. request_method r = ''DELETE''
        \<and> uri r \<in> set (map (delete_uri (example_world server_delete_unreachable) ''http://am1'')
                          [JStr ''a1'', JStr ''a2'', JStr ''a3''])
      \<longrightarrow> \<not> rejected (http (example_world server_delete_unreachable) h r)"
    by (simp add: example_world_def server_delete_unreachable_def rejected_def)
  have j: "\<forall>h r. request_method r = ''DELETE''
        \<and> uri r = delete_uri (example_world server_delete_rejected) ''http://am1'' (JStr ''a1'')
      \<longrightarrow> rejected (http (example_world server_delete_rejected) h r)"
    by (simp add: example_world_def server_delete_rejected_def rejected_def json_response_def)
  have d: "map (delete_uri w ''http://am1'') [JStr ''a1'', JStr ''a2'', JStr ''a3'']
      = [''http://am1/api/v2/silence/a1'', ''http://am1/api/v2/silence/a2'',
         ''http://am1/api/v2/silence/a3'']" for w
    by (simp add: delete_uri_def format_id_def)
  from delete_failures [OF r, where w = "example_world server_delete_unreachable"
      and u = "''http://am1''" and ids = "[JStr ''a1'', JStr ''a2'', JStr ''a3'']"
      and i = "JStr ''a1''" and g = ?g and rest = "[JStr ''a2'', JStr ''a3'']"] u
  have 1: "\<exists>s'. delete_loop (example_world server_delete_unreachable) ?g
              ''http://am1'' ''delete'' [JStr ''a1'', JStr ''a2'', JStr ''a3''] ?s = (Inr (), s')
          \<and> map uri (sent s') =
              [''http://am1/api/v2/silence/a1'', ''http://am1/api/v2/silence/a2'',
               ''http://am1/api/v2/silence/a3'']"
    by (simp only: d e) simp
  from delete_failures [OF r, where w = "example_world server_delete_rejected"
      and u = "''http://am1''" and ids = "[JStr ''a1'', JStr ''a2'', JStr ''a3'']"
      and i = "JStr ''a1''" and g = ?g and rest = "[JStr ''a2'', JStr ''a3'']"] j
  have 2: "\<exists>s'. delete_loop (example_world server_delete_rejected) ?g
              ''http://am1'' ''delete'' [JStr ''a1'', JStr ''a2'', JStr ''a3''] ?s
               = (Inl (SystemExit 1), s')
          \<and> map uri (sent s') = [''http://am1/api/v2/silence/a1'']"
    by (simp add: e delete_uri_def format_id_def del: delete_loop.simps)
  have 3: "fst (perform_action (example_world server_delete_unreachable) ?g
            ''delete'' ?s) = Inr ()"
    by code_simp
  from r 1 2 3 show ?thesis by blast
qed

text \<open>
  The claim as stated fails on a delete run whose backend lists three matching silences
  and answers the first \<^verbatim>\<open>DELETE\<close> with status 500: the process exits with status 1 after
  that request; the other two identifiers and the second target are never attempted.
\<close>

theorem delete_rejected_counterexample:
  "fst (perform_action (example_world server_delete_rejected) (example_settings ''push'')
          ''delete'' (initial_state example_env)) = Inl (SystemExit 1)
   \<and> map (\<lambda>r. (request_method r, uri r))
       (sent (snd (perform_action (example_world server_delete_rejected)
          (example_settings ''push'') ''delete'' (initial_state example_env))))
       = [(''GET'', ''http://am1/api/v2/silences''),
          (''DELETE'', ''http://am1/api/v2/silence/a1'')]"
  by code_simp

section \<open>A search whose request fails\<close>

text \<open>
  When the \<^verbatim>\<open>GET\<close> of the search raises in the transport, \<open>make_request\<close> prints the
  error and gives \<^verbatim>\<open>None\<close>; the assignment \<^verbatim>\<open>response, content = ...\<close> of
  \<open>find_silences\<close> then raises \<^verbatim>\<open>TypeError\<close> outside the \<^verbatim>\<open>try\<close>, and nothing catches it.
\<close>

theorem search_transport_failure:
  assumes "load_required_matchers w g s0 = (Inr m, sl)"
    and "search_notice g sl = (Inr (), sn)"
    and "prepare_request w g (b @ ''/api/v2/silences'') ''GET'' None sn = (Inr r, sp)"
    and "http w (sent sp) r = Raises e"
  shows "fst (find_silences w g b s0) = Inl (Exception TypeError)"
  using send_request_failed [OF assms(4), of g]
  by (auto simp: find_silences_request [OF assms(1) assms(2) assms(3)] bnd_def
        search_response_def raise_def)

theorem search_transport_failure_witness:
  "fst (find_silences (example_world server_unreachable) (example_settings ''push'')
          ''http://am1'' (initial_state example_env)) = Inl (Exception TypeError)
   \<and> fst (perform_action (example_world server_unreachable) (example_settings ''push'')
          ''delete'' (initial_state example_env)) = Inl (Exception TypeError)"
proof -
  let ?g = "example_settings ''push''"
  let ?s = "initial_state example_env"
  have l: "load_required_matchers (example_world server_unreachable) ?g ?s = (Inr JNull, ?s)"
    by (simp add: load_required_matchers_def example_settings_def ret_def)
  have n: "search_notice ?g ?s = (Inr (), snd (search_notice ?g ?s))"
    by (simp add: search_notice_def print_msg_def)
  from example_search_prepared [of server_unreachable] obtain r sp where
    p: "prepare_request (example_world server_unreachable) ?g
          (''http://am1'' @ ''/api/v2/silences'') ''GET'' None (snd (search_notice ?g ?s))
        = (Inr r, sp)" by blast
  have h: "http (example_world server_unreachable) (sent sp) r = Raises ServerNotFoundError"
    by (simp add: example_world_def server_unreachable_def)
  have 1: "fst (find_silences (example_world server_unreachable) ?g ''http://am1'' ?s)
      = Inl (Exception TypeError)"
    using search_transport_failure [OF l n p h] by simp
  have 2: "fst (perform_action (example_world server_unreachable) ?g ''delete'' ?s)
      = Inl (Exception TypeError)"
    by code_simp
  from 1 2 show ?thesis by simp
qed

end
